theory Spec2Isabelle
  imports Complex_Main "HOL-Library.Word" "HOL-Library.Multiset"
begin

section \<open>Errors and runtime selection (Create.go, createRuntime)\<close>

text \<open>
  Go errors are values. The ones built in Create.go carry a fixed message; the ones that
  come back from a collaborator (mount preparation, script generation, sbatch, job-id
  recording, cleanup, JSON, body read) are opaque and carry whatever text the collaborator
  chose.
\<close>

datatype error =
    ErrInvalidRuntime
  | ErrInvalidMemoryFormat string
  | ErrSyntax string
  | ErrRange string
  | ErrCollaborator string

datatype Runtime = SingularityRuntime | EnrootRuntime

definition createRuntime :: "string \<Rightarrow> error + Runtime" where
  "createRuntime containerRuntime =
     (if containerRuntime = ''singularity'' then Inr SingularityRuntime
      else if containerRuntime = ''enroot'' then Inr EnrootRuntime
      else Inl ErrInvalidRuntime)"

section \<open>Memory-size parser (Create.go, parseMem)\<close>

text \<open>
  The regular expression is \<^verbatim>\<open>^(\d+)([KMG]?)$\<close>. In Go's syntax \<^verbatim>\<open>\d\<close> is an ASCII
  digit and \<^verbatim>\<open>$\<close> (no multi-line flag) is the end of the text. A digit run followed by
  at most one of K, M, G can match in one way only, since the unit letters are no digits:
  the first group is the longest digit prefix and the second group is the rest.
  \<open>FindStringSubmatch\<close> returns nil when nothing matches and the whole match followed by
  the two groups otherwise.
\<close>

definition isDigit :: "char \<Rightarrow> bool" where
  "isDigit c = (c \<in> set ''0123456789'')"

definition findStringSubmatch :: "string \<Rightarrow> string list" where
  "findStringSubmatch val =
     (let ds = takeWhile isDigit val; u = dropWhile isDigit val
      in if ds \<noteq> [] \<and> (u = [] \<or> u = ''K'' \<or> u = ''M'' \<or> u = ''G'')
         then [val, ds, u] else [])"

text \<open>The decimal value of a digit string, most significant digit first.\<close>

definition digitVal :: "char \<Rightarrow> nat" where
  "digitVal c = of_char c - 48"

definition digitsVal :: "string \<Rightarrow> nat" where
  "digitsVal ds = foldl (\<lambda>acc c. 10 * acc + digitVal c) 0 ds"

text \<open>
  \<open>strconv.ParseInt(s, 10, 64)\<close>: an optional sign, then at least one decimal digit and
  nothing else (a syntax error otherwise); a value outside the signed 64-bit range is a
  range error.
\<close>

definition parseInt :: "string \<Rightarrow> error + 64 word" where
  "parseInt s =
     (let neg = (s \<noteq> [] \<and> hd s = CHR ''-'');
          body = (if s \<noteq> [] \<and> (hd s = CHR ''+'' \<or> hd s = CHR ''-'') then tl s else s)
      in if body = [] \<or> \<not> list_all isDigit body then Inl (ErrSyntax s)
         else let n = digitsVal body
              in if neg then (if 2 ^ 63 < n then Inl (ErrRange s) else Inr (- word_of_nat n))
                 else (if 2 ^ 63 \<le> n then Inl (ErrRange s) else Inr (word_of_nat n)))"

text \<open>
  The products are Go \<open>int64\<close> products: they wrap around, which is what \<open>*\<close> on
  \<open>64 word\<close> does. On an error Go returns the pair (0, err); the model returns the
  error alone.
\<close>

definition parseMem :: "string \<Rightarrow> error + 64 word" where
  "parseMem val =
     (let m = findStringSubmatch val
      in if length m \<noteq> 3 then Inl (ErrInvalidMemoryFormat val)
         else case parseInt (m ! 1) of
                Inl err \<Rightarrow> Inl err
              | Inr n \<Rightarrow>
                  (if m ! 2 = ''G'' then Inr (n * 1024 * 1024 * 1024)
                   else if m ! 2 = ''M'' then Inr (n * 1024 * 1024)
                   else if m ! 2 = ''K'' then Inr (n * 1024)
                   else Inr n))"

text \<open>
  The grammar as the specification words it: a token is a non-empty run of digits followed
  by an optional unit, the unit being none, K, M or G, which stand for the powers
  0, 1, 2, 3 of 1024.
\<close>

definition memGrammar :: "string \<Rightarrow> string \<Rightarrow> string \<Rightarrow> bool" where
  "memGrammar val ds u =
     (val = ds @ u \<and> ds \<noteq> [] \<and> list_all isDigit ds \<and> (u = [] \<or> u = ''K'' \<or> u = ''M'' \<or> u = ''G''))"

definition unitExp :: "string \<Rightarrow> nat" where
  "unitExp u = (if u = ''G'' then 3 else if u = ''M'' then 2 else if u = ''K'' then 1 else 0)"

section \<open>Data model (types.go and the Kubernetes types the handler reads)\<close>

text \<open>
  Of a \<open>v1.Container\<close> the handler reads the name, the image, the command, the
  arguments and the two resource limits. \<open>LimitsCpu\<close> is the CPU quantity
  \<open>Resources.Limits.Cpu()\<close> as a number; the handler takes a float approximation of it
  and rounds up, and the model rounds the number itself up. \<open>LimitsMemory\<close> is what
  \<open>Resources.Limits.Memory().AsInt64()\<close> returns, an \<open>int64\<close> (0 when the limit is
  absent or does not fit). The loop only compares and copies these integers, so they are
  modelled as \<open>int\<close>; Go's \<open>int\<close> is taken to be 64 bits wide, so that the
  conversions \<open>int(...)\<close> change nothing.
\<close>

record Container =
  Name :: string
  Image :: string
  Command :: "string list"
  Args :: "string list"
  LimitsCpu :: rat
  LimitsMemory :: int

text \<open>
  The pod inside \<open>RetrievedPodData\<close>. The object metadata and the rest of the retrieved
  data are only handed on to collaborators, which receive the whole value here.
\<close>

record Pod =
  UID :: string
  Namespace :: string
  InitContainers :: "Container list"
  Containers :: "Container list"

record SlurmConfig =
  DataRootFolder :: string
  ContainerRuntime :: string

record CreateStruct =
  PodUID :: string
  PodJID :: string

record ContainerCommand =
  containerName :: string
  isInitContainer :: bool
  runtimeCommand :: "string list"
  containerCommand :: "string list"
  containerArgs :: "string list"
  containerImage :: string

record ResourceLimits =
  CPU :: int
  Memory :: int

text \<open>The job-tracking store \<open>h.JIDs\<close>: pod identifier to job identifier.\<close>

type_synonym JIDs = "string \<rightharpoonup> string"

section \<open>Observable effects\<close>

text \<open>
  What the handler does to the outside is recorded as a trace, in program order: the
  warnings and errors it logs, every collaborator call, the removal of the working
  directory and the writes to the HTTP response. Info and debug logging and the tracing
  span are left out.
\<close>

datatype event =
    EvWarning string
  | EvLogError error
  | EvPrepareMounts string
  | EvPrepareEnvs string
  | EvPrepareImage string
  | EvPrepareCommand string
  | EvProduceSLURMScript "ContainerCommand list" ResourceLimits bool bool
  | EvSLURMBatchSubmit string
  | EvHandleJidAndPodUid string string
  | EvDeleteContainer string string
  | EvRemoveAll string
  | EvWriteHeader nat
  | EvWrite string

section \<open>Resource-limit aggregation (Create.go, SubmitHandler, lines 104 to 150)\<close>

text \<open>The variables the loop keeps for the limits, with their values before the loop.\<close>

record Agg =
  resourceLimits :: ResourceLimits
  isDefaultCPU :: bool
  isDefaultRam :: bool
  maxCPULimit :: int
  maxMemoryLimit :: int
  cpuLimit :: int
  memoryLimit :: int

definition initAgg :: Agg where
  "initAgg =
     \<lparr>resourceLimits = \<lparr>CPU = 0, Memory = 0\<rparr>,
      isDefaultCPU = True, isDefaultRam = True,
      maxCPULimit = 0, maxMemoryLimit = 0,
      cpuLimit = 0, memoryLimit = 0\<rparr>"

text \<open>Lines 125 to 135.\<close>

definition stepCPU :: "string \<Rightarrow> int \<Rightarrow> Agg \<Rightarrow> Agg \<times> event list" where
  "stepCPU nm cpuLimitFromContainer a =
     (if cpuLimitFromContainer = 0 \<and> isDefaultCPU a
      then (a\<lparr>resourceLimits := (resourceLimits a)\<lparr>CPU := 1\<rparr>\<rparr>,
            [EvWarning (''Max CPU resource not set for '' @ nm @ ''. Only 1 CPU will be used'')])
      else if cpuLimitFromContainer > CPU (resourceLimits a) \<and> maxCPULimit a < cpuLimitFromContainer
      then (a\<lparr>cpuLimit := cpuLimitFromContainer,
              maxCPULimit := cpuLimitFromContainer,
              isDefaultCPU := False\<rparr>, [])
      else (a, []))"

text \<open>Lines 137 to 147.\<close>

definition stepMemory :: "string \<Rightarrow> int \<Rightarrow> Agg \<Rightarrow> Agg \<times> event list" where
  "stepMemory nm memoryLimitFromContainer a =
     (if memoryLimitFromContainer = 0 \<and> isDefaultRam a
      then (a\<lparr>resourceLimits := (resourceLimits a)\<lparr>Memory := 1024 * 1024\<rparr>\<rparr>,
            [EvWarning (''Max Memory resource not set for '' @ nm @ ''. Only 1MB will be used'')])
      else if memoryLimitFromContainer > Memory (resourceLimits a)
              \<and> maxMemoryLimit a < memoryLimitFromContainer
      then (a\<lparr>memoryLimit := memoryLimitFromContainer,
              maxMemoryLimit := memoryLimitFromContainer,
              isDefaultRam := False\<rparr>, [])
      else (a, []))"

text \<open>Lines 120 and 123: the CPU limit rounded up to whole units.\<close>

definition cpuUnits :: "Container \<Rightarrow> int" where
  "cpuUnits container = \<lceil>LimitsCpu container\<rceil>"

text \<open>
  Lines 120 to 150: one container's share of the aggregation. The last two assignments
  (lines 149 and 150) copy \<open>cpuLimit\<close> and \<open>memoryLimit\<close> into \<open>resourceLimits\<close>
  whatever the branches above stored there.
\<close>

definition limitsStep :: "Container \<Rightarrow> Agg \<Rightarrow> Agg \<times> event list" where
  "limitsStep container a =
     (let cpuLimitFromContainer = cpuUnits container;
          memoryLimitFromContainer = LimitsMemory container;
          (a1, w1) = stepCPU (Name container) cpuLimitFromContainer a;
          (a2, w2) = stepMemory (Name container) memoryLimitFromContainer a1;
          a3 = a2\<lparr>resourceLimits := (resourceLimits a2)\<lparr>CPU := cpuLimit a2\<rparr>\<rparr>;
          a4 = a3\<lparr>resourceLimits := (resourceLimits a3)\<lparr>Memory := memoryLimit a3\<rparr>\<rparr>
      in (a4, w1 @ w2))"

text \<open>
  The aggregation over a container list, as the loop performs it when no container aborts
  the submission: the limits after the last container and the warnings in order.
\<close>

fun aggregate :: "Container list \<Rightarrow> Agg \<Rightarrow> Agg \<times> event list" where
  "aggregate [] a = (a, [])"
| "aggregate (container # rest) a =
     (let (a', w) = limitsStep container a;
          (a'', ws) = aggregate rest a'
      in (a'', w @ ws))"

definition finalLimits :: "Container list \<Rightarrow> Agg" where
  "finalLimits containers = fst (aggregate containers initAgg)"

definition warnings :: "Container list \<Rightarrow> event list" where
  "warnings containers = snd (aggregate containers initAgg)"

section \<open>Removing the read-only markers (strings.ReplaceAll)\<close>

text \<open>
  \<open>strings.ReplaceAll(s, old, new)\<close> replaces the non-overlapping occurrences of
  \<open>old\<close> in \<open>s\<close>, found from left to right in one pass. The handler calls it with a
  non-empty \<open>old\<close>; for an empty \<open>old\<close> Go inserts \<open>new\<close> before every character and
  at the end.
\<close>

fun replaceNonEmpty :: "string \<Rightarrow> string \<Rightarrow> string \<Rightarrow> string" where
  "replaceNonEmpty old new [] = []"
| "replaceNonEmpty old new (c # cs) =
     (if old \<noteq> [] \<and> take (length old) (c # cs) = old
      then new @ replaceNonEmpty old new (drop (length old - 1) cs)
      else c # replaceNonEmpty old new cs)"

definition ReplaceAll :: "string \<Rightarrow> string \<Rightarrow> string \<Rightarrow> string" where
  "ReplaceAll s old new =
     (if old = [] then new @ concat (map (\<lambda>c. c # new) s) else replaceNonEmpty old new s)"

text \<open>Whether \<open>sub\<close> occurs in \<open>s\<close> as a run of consecutive characters.\<close>

fun contains :: "string \<Rightarrow> string \<Rightarrow> bool" where
  "contains [] sub = (sub = [])"
| "contains (c # cs) sub = (take (length sub) (c # cs) = sub \<or> contains cs sub)"

section \<open>Collaborators\<close>

text \<open>
  The functions the handler calls and Create.go does not define are parameters of the
  model, with the arguments the handler passes (the tracing context apart). Those that
  can fail return a sum. \<open>readAll\<close> is the result of \<open>io.ReadAll(r.Body)\<close>.
  \<open>handleJidAndPodUid\<close> and \<open>deleteContainer\<close> receive the job-tracking store and
  return it as they leave it.
\<close>

record Collab =
  readAll :: "error + string"
  jsonUnmarshal :: "string \<Rightarrow> error + Pod"
  prepareMounts :: "SlurmConfig \<Rightarrow> Pod \<Rightarrow> Container \<Rightarrow> string \<Rightarrow> error + string"
  prepareEnvs :: "SlurmConfig \<Rightarrow> Pod \<Rightarrow> Container \<Rightarrow> string list"
  prepareImage :: "SlurmConfig \<Rightarrow> Pod \<Rightarrow> string \<Rightarrow> string"
  prepareCommand :: "Runtime \<Rightarrow> SlurmConfig \<Rightarrow> Container \<Rightarrow> Pod \<Rightarrow> string list"
  produceSLURMScript ::
    "SlurmConfig \<Rightarrow> string \<Rightarrow> string \<Rightarrow> Pod \<Rightarrow> ContainerCommand list \<Rightarrow> ResourceLimits
       \<Rightarrow> bool \<Rightarrow> bool \<Rightarrow> error + string"
  SLURMBatchSubmit :: "SlurmConfig \<Rightarrow> string \<Rightarrow> error + string"
  handleJidAndPodUid :: "Pod \<Rightarrow> JIDs \<Rightarrow> string \<Rightarrow> string \<Rightarrow> (error + string) \<times> JIDs"
  deleteContainer :: "SlurmConfig \<Rightarrow> string \<Rightarrow> JIDs \<Rightarrow> string \<Rightarrow> error option \<times> JIDs"
  jsonMarshal :: "CreateStruct \<Rightarrow> error + string"

definition StatusOK :: nat where
  "StatusOK = 200"

definition StatusInternalServerError :: nat where
  "StatusInternalServerError = 500"

definition StatusGatewayTimeout :: nat where
  "StatusGatewayTimeout = 504"

definition genericMessage :: string where
  "genericMessage = ''Some errors occurred while creating containers. Check Slurm Sidecar's logs''"

text \<open>
  Modelled from the spec: \<open>handleError\<close> is a method of the handler that is not among
  the source files. The specification (section 6, caller-facing contract) says that on an
  internal failure the caller gets an error status and a generic diagnostic message that
  points to the logs: the model logs the error, writes the status code it is given and
  writes the generic message.
\<close>

definition handleError :: "nat \<Rightarrow> error \<Rightarrow> event list" where
  "handleError code err = [EvLogError err, EvWriteHeader code, EvWrite genericMessage]"

section \<open>Per-container processing (Create.go, SubmitHandler, lines 115 to 195)\<close>

record LoopState =
  agg :: Agg
  runtime_command_pod :: "ContainerCommand list"
  events :: "event list"

text \<open>Lines 166 to 177: the command of one container, by runtime name.\<close>

definition assembleCommand ::
  "SlurmConfig \<Rightarrow> Pod \<Rightarrow> Container \<Rightarrow> string list \<Rightarrow> string list \<Rightarrow> string \<Rightarrow> string
     \<Rightarrow> string list" where
  "assembleCommand cfg data container commstr1 envs mounts image' =
     (let runtime_command = commstr1 @ envs
      in if ContainerRuntime cfg = ''singularity''
         then (runtime_command @ [mounts]) @ [image']
         else if ContainerRuntime cfg = ''enroot''
         then (let containerName = Name container @ UID data;
                   mounts' = ReplaceAll mounts '':ro'' []
               in (runtime_command @ [mounts']) @ [containerName])
         else runtime_command)"

text \<open>
  One pass of the loop body for the container at index \<open>i\<close>. \<open>Inl\<close> is the early
  return of line 158, after the error response and the removal of the working directory;
  \<open>Inr\<close> is the state at the end of the body.
\<close>

definition processContainer ::
  "Collab \<Rightarrow> SlurmConfig \<Rightarrow> Runtime \<Rightarrow> Pod \<Rightarrow> string \<Rightarrow> nat \<Rightarrow> Container \<Rightarrow> LoopState
     \<Rightarrow> LoopState + LoopState" where
  "processContainer K cfg containerRuntime data filesPath i container st =
     (let (a, w) = limitsStep container (agg st);
          st1 = st\<lparr>agg := a, events := events st @ w @ [EvPrepareMounts (Name container)]\<rparr>
      in case prepareMounts K cfg data container filesPath of
           Inl err \<Rightarrow>
             Inl (st1\<lparr>events := events st1 @ handleError StatusGatewayTimeout err
                                   @ [EvRemoveAll filesPath]\<rparr>)
         | Inr mounts \<Rightarrow>
             (let envs = prepareEnvs K cfg data container;
                  image' = prepareImage K cfg data (Image container);
                  commstr1 = prepareCommand K containerRuntime cfg container data;
                  runtime_command = assembleCommand cfg data container commstr1 envs mounts image';
                  isInit = (i < length (InitContainers data))
              in Inr (st1\<lparr>events := events st1
                               @ [EvPrepareEnvs (Name container),
                                  EvPrepareImage (Name container),
                                  EvPrepareCommand (Name container)],
                          runtime_command_pod := runtime_command_pod st1
                               @ [\<lparr>containerName = Name container,
                                   isInitContainer = isInit,
                                   runtimeCommand = runtime_command,
                                   containerCommand = Command container,
                                   containerArgs = Args container,
                                   containerImage = image'\<rparr>]\<rparr>)))"

fun processContainers ::
  "Collab \<Rightarrow> SlurmConfig \<Rightarrow> Runtime \<Rightarrow> Pod \<Rightarrow> string \<Rightarrow> nat \<Rightarrow> Container list \<Rightarrow> LoopState
     \<Rightarrow> LoopState + LoopState" where
  "processContainers K cfg containerRuntime data filesPath i [] st = Inr st"
| "processContainers K cfg containerRuntime data filesPath i (container # rest) st =
     (case processContainer K cfg containerRuntime data filesPath i container st of
        Inl st' \<Rightarrow> Inl st'
      | Inr st' \<Rightarrow> processContainers K cfg containerRuntime data filesPath (Suc i) rest st')"

definition initLoopState :: LoopState where
  "initLoopState = \<lparr>agg = initAgg, runtime_command_pod = [], events = []\<rparr>"

section \<open>The submission handler (Create.go, SubmitHandler)\<close>

text \<open>
  What a call leaves behind: the trace, the job-tracking store and the value of the local
  variable \<open>statusCode\<close> when the handler returns.
\<close>

record Outcome =
  trace :: "event list"
  store :: JIDs
  statusCode :: nat

text \<open>Lines 217 to 247: recording the job identifier and answering.\<close>

definition recordAndRespond ::
  "Collab \<Rightarrow> SlurmConfig \<Rightarrow> JIDs \<Rightarrow> Pod \<Rightarrow> string \<Rightarrow> string \<Rightarrow> event list \<Rightarrow> Outcome" where
  "recordAndRespond K cfg jids data filesPath out evs =
     (let evs1 = evs @ [EvHandleJidAndPodUid (UID data) out]
      in case handleJidAndPodUid K data jids out filesPath of
           (Inl err, jids1) \<Rightarrow>
             (let evs2 = evs1 @ handleError StatusGatewayTimeout err @ [EvRemoveAll filesPath]
                           @ [EvDeleteContainer (UID data) filesPath]
              in case deleteContainer K cfg (UID data) jids1 filesPath of
                   (Some err', jids2) \<Rightarrow>
                     \<lparr>trace = evs2 @ [EvLogError err'], store = jids2,
                      statusCode = StatusInternalServerError\<rparr>
                 | (None, jids2) \<Rightarrow>
                     \<lparr>trace = evs2, store = jids2, statusCode = StatusInternalServerError\<rparr>)
         | (Inr jid, jids1) \<Rightarrow>
             (let returnedJID = \<lparr>PodUID = UID data, PodJID = jid\<rparr>
              in case jsonMarshal K returnedJID of
                   Inl err \<Rightarrow>
                     \<lparr>trace = evs1 @ handleError StatusInternalServerError err,
                      store = jids1, statusCode = StatusInternalServerError\<rparr>
                 | Inr returnedJIDBytes \<Rightarrow>
                     (let code = StatusOK
                      in \<lparr>trace = evs1 @ [EvWriteHeader code]
                            @ (if code \<noteq> StatusOK then [EvWrite genericMessage]
                               else [EvWrite returnedJIDBytes]),
                          store = jids1, statusCode = code\<rparr>)))"

text \<open>Lines 202 to 216: script generation and submission.\<close>

definition generateAndSubmit ::
  "Collab \<Rightarrow> SlurmConfig \<Rightarrow> JIDs \<Rightarrow> Pod \<Rightarrow> string \<Rightarrow> LoopState \<Rightarrow> Outcome" where
  "generateAndSubmit K cfg jids data filesPath st =
     (let rl = resourceLimits (agg st);
          evs1 = events st @ [EvProduceSLURMScript (runtime_command_pod st) rl
                                (isDefaultCPU (agg st)) (isDefaultRam (agg st))]
      in case produceSLURMScript K cfg (UID data) filesPath data (runtime_command_pod st) rl
                (isDefaultCPU (agg st)) (isDefaultRam (agg st)) of
           Inl err \<Rightarrow>
             \<lparr>trace = evs1 @ [EvLogError err, EvRemoveAll filesPath], store = jids,
              statusCode = StatusOK\<rparr>
         | Inr path \<Rightarrow>
             (let evs2 = evs1 @ [EvSLURMBatchSubmit path]
              in case SLURMBatchSubmit K cfg path of
                   Inl err \<Rightarrow>
                     \<lparr>trace = evs2 @ handleError StatusGatewayTimeout err @ [EvRemoveAll filesPath],
                      store = jids, statusCode = StatusInternalServerError\<rparr>
                 | Inr out \<Rightarrow> recordAndRespond K cfg jids data filesPath out evs2))"

text \<open>
  Lines 98 to 101: the containers of a pod in the order the loop visits them, and the
  working directory of the pod.
\<close>

definition podContainers :: "Pod \<Rightarrow> Container list" where
  "podContainers data = InitContainers data @ Containers data"

definition podFilesPath :: "SlurmConfig \<Rightarrow> Pod \<Rightarrow> string" where
  "podFilesPath cfg data = DataRootFolder cfg @ Namespace data @ ''-'' @ UID data"

text \<open>
  The handler, from the body read to the loop (lines 71 to 195) and on. In the failures
  that call \<open>handleError\<close> with \<open>http.StatusGatewayTimeout\<close> the variable
  \<open>statusCode\<close> has just been set to \<open>http.StatusInternalServerError\<close>.
\<close>

definition SubmitHandler :: "Collab \<Rightarrow> SlurmConfig \<Rightarrow> JIDs \<Rightarrow> Outcome" where
  "SubmitHandler K cfg jids =
     (case readAll K of
        Inl err \<Rightarrow>
          \<lparr>trace = handleError StatusInternalServerError err, store = jids,
           statusCode = StatusInternalServerError\<rparr>
      | Inr bodyBytes \<Rightarrow>
          (case createRuntime (ContainerRuntime cfg) of
             Inl err \<Rightarrow>
               \<lparr>trace = handleError StatusInternalServerError err, store = jids,
                statusCode = StatusInternalServerError\<rparr>
           | Inr containerRuntime \<Rightarrow>
               (case jsonUnmarshal K bodyBytes of
                  Inl err \<Rightarrow>
                    \<lparr>trace = handleError StatusGatewayTimeout err, store = jids,
                     statusCode = StatusInternalServerError\<rparr>
                | Inr data \<Rightarrow>
                    (let containers = podContainers data;
                         filesPath = podFilesPath cfg data
                     in case processContainers K cfg containerRuntime data filesPath 0
                               containers initLoopState of
                          Inl st \<Rightarrow>
                            \<lparr>trace = events st, store = jids,
                             statusCode = StatusInternalServerError\<rparr>
                        | Inr st \<Rightarrow> generateAndSubmit K cfg jids data filesPath st))))"

text \<open>Classes of events, to speak about traces.\<close>

fun containerLevel :: "event \<Rightarrow> bool" where
  "containerLevel (EvWarning m) = True"
| "containerLevel (EvPrepareMounts n) = True"
| "containerLevel (EvPrepareEnvs n) = True"
| "containerLevel (EvPrepareImage n) = True"
| "containerLevel (EvPrepareCommand n) = True"
| "containerLevel e = False"

fun schedulerVisible :: "event \<Rightarrow> bool" where
  "schedulerVisible (EvProduceSLURMScript cs rl dc dr) = True"
| "schedulerVisible (EvSLURMBatchSubmit p) = True"
| "schedulerVisible e = False"

fun responseWrite :: "event \<Rightarrow> bool" where
  "responseWrite (EvWriteHeader c) = True"
| "responseWrite (EvWrite b) = True"
| "responseWrite e = False"

text \<open>What the caller is sent: the writes to the response, in order.\<close>

definition response :: "Outcome \<Rightarrow> event list" where
  "response out = filter responseWrite (trace out)"

section \<open>Auxiliary definitions\<close>

text \<open>
  The relation between the limit variables that holds before and after every pass of the
  loop: \<open>resourceLimits\<close>, the running limit and the auxiliary maximum agree, none is
  negative, and a default flag is set exactly while the running limit is still 0.
\<close>

definition aggInv :: "Agg \<Rightarrow> bool" where
  "aggInv a =
     (CPU (resourceLimits a) = cpuLimit a \<and> maxCPULimit a = cpuLimit a \<and> 0 \<le> cpuLimit a
      \<and> (isDefaultCPU a = (cpuLimit a = 0))
      \<and> Memory (resourceLimits a) = memoryLimit a \<and> maxMemoryLimit a = memoryLimit a
      \<and> 0 \<le> memoryLimit a \<and> (isDefaultRam a = (memoryLimit a = 0)))"

text \<open>The call the handler makes for the enroot runtime (line 173).\<close>

definition stripRO :: "string \<Rightarrow> string" where
  "stripRO s = ReplaceAll s '':ro'' []"

text \<open>The collaborator calls made for one container, in the order of the loop body.\<close>

definition perContainerCalls :: "Container \<Rightarrow> event list" where
  "perContainerCalls c =
     [EvPrepareMounts (Name c), EvPrepareEnvs (Name c), EvPrepareImage (Name c),
      EvPrepareCommand (Name c)]"

fun isWarning :: "event \<Rightarrow> bool" where
  "isWarning (EvWarning m) = True"
| "isWarning e = False"

fun isDeleteContainer :: "event \<Rightarrow> bool" where
  "isDeleteContainer (EvDeleteContainer u p) = True"
| "isDeleteContainer e = False"

text \<open>The status codes written to the response, in order.\<close>

fun headers :: "event list \<Rightarrow> nat list" where
  "headers [] = []"
| "headers (EvWriteHeader c # es) = c # headers es"
| "headers (e # es) = headers es"

subsection \<open>Concrete inputs\<close>

definition exContainer :: "string \<Rightarrow> rat \<Rightarrow> int \<Rightarrow> Container" where
  "exContainer n cpu mem =
     \<lparr>Name = n, Image = ''img.sif'', Command = [''sleep''], Args = [''10''],
      LimitsCpu = cpu, LimitsMemory = mem\<rparr>"

definition exPod :: "Container list \<Rightarrow> Pod" where
  "exPod cs = \<lparr>UID = ''uid-1'', Namespace = ''ns'', InitContainers = [], Containers = cs\<rparr>"

definition exConfig :: "string \<Rightarrow> SlurmConfig" where
  "exConfig rt = \<lparr>DataRootFolder = ''/tmp/'', ContainerRuntime = rt\<rparr>"

text \<open>Collaborators that all succeed; \<open>mnt\<close> is the mount fragment they prepare.\<close>

definition exCollab :: "Pod \<Rightarrow> string \<Rightarrow> Collab" where
  "exCollab pod mnt =
     \<lparr>readAll = Inr ''{}'',
      jsonUnmarshal = (\<lambda>b. Inr pod),
      prepareMounts = (\<lambda>cfg d c p. Inr mnt),
      prepareEnvs = (\<lambda>cfg d c. [''--env'', ''A=1'']),
      prepareImage = (\<lambda>cfg d i. i),
      prepareCommand = (\<lambda>rt cfg c d. [''run'']),
      produceSLURMScript = (\<lambda>cfg u p d cs rl dc dr. Inr (p @ ''/job.sh'')),
      SLURMBatchSubmit = (\<lambda>cfg p. Inr ''Submitted batch job 7''),
      handleJidAndPodUid = (\<lambda>d j out p. (Inr ''7'', j(UID d \<mapsto> ''7''))),
      deleteContainer = (\<lambda>cfg u j p. (None, j(u := None))),
      jsonMarshal = (\<lambda>r. Inr (PodUID r @ '' '' @ PodJID r))\<rparr>"

fun recordsJob :: "event \<Rightarrow> bool" where
  "recordsJob (EvHandleJidAndPodUid u out) = True"
| "recordsJob e = False"

text \<open>
  The loop as the handler runs it on a pod, and the call of the script generator on the
  state the loop leaves (line 202).
\<close>

definition loopOutcome :: "Collab \<Rightarrow> SlurmConfig \<Rightarrow> Runtime \<Rightarrow> Pod \<Rightarrow> LoopState + LoopState" where
  "loopOutcome K cfg rt data =
     processContainers K cfg rt data (podFilesPath cfg data) 0 (podContainers data) initLoopState"

definition scriptOutcome :: "Collab \<Rightarrow> SlurmConfig \<Rightarrow> Pod \<Rightarrow> LoopState \<Rightarrow> error + string" where
  "scriptOutcome K cfg data st =
     produceSLURMScript K cfg (UID data) (podFilesPath cfg data) data (runtime_command_pod st)
       (resourceLimits (agg st)) (isDefaultCPU (agg st)) (isDefaultRam (agg st))"

text \<open>A pod with two containers, and collaborators that fail at one stage each.\<close>

definition exPod2 :: Pod where
  "exPod2 = exPod [exContainer ''a'' 0 0, exContainer ''b'' 1 0]"

definition exFailMounts :: "Collab \<Rightarrow> string \<Rightarrow> Collab" where
  "exFailMounts K n =
     K\<lparr>prepareMounts := (\<lambda>cfg d c p. if Name c = n then Inl (ErrCollaborator ''mount failed'')
                                     else prepareMounts K cfg d c p)\<rparr>"

definition exFailBody :: "Collab \<Rightarrow> Collab" where
  "exFailBody K = K\<lparr>readAll := Inl (ErrCollaborator ''read failed'')\<rparr>"

definition exFailUnmarshal :: "Collab \<Rightarrow> Collab" where
  "exFailUnmarshal K = K\<lparr>jsonUnmarshal := (\<lambda>b. Inl (ErrCollaborator ''bad json''))\<rparr>"

definition exFailScript :: "Collab \<Rightarrow> Collab" where
  "exFailScript K =
     K\<lparr>produceSLURMScript := (\<lambda>cfg u p d cs rl dc dr. Inl (ErrCollaborator ''disk full''))\<rparr>"

definition exFailSubmit :: "Collab \<Rightarrow> Collab" where
  "exFailSubmit K = K\<lparr>SLURMBatchSubmit := (\<lambda>cfg p. Inl (ErrCollaborator ''sbatch failed''))\<rparr>"

definition exFailRecord :: "Collab \<Rightarrow> Collab" where
  "exFailRecord K =
     K\<lparr>handleJidAndPodUid := (\<lambda>d j out p. (Inl (ErrCollaborator ''no job id''), j))\<rparr>"

definition exFailMarshal :: "Collab \<Rightarrow> Collab" where
  "exFailMarshal K = K\<lparr>jsonMarshal := (\<lambda>r. Inl (ErrCollaborator ''marshal failed''))\<rparr>"

text \<open>The status codes a call reports to the caller.\<close>

definition reportedStatus :: "Collab \<Rightarrow> SlurmConfig \<Rightarrow> JIDs \<Rightarrow> nat list" where
  "reportedStatus K cfg jids = headers (trace (SubmitHandler K cfg jids))"

section \<open>The memory-size parser\<close>

lemma unit_not_digit:
  "u = [] \<or> u = ''K'' \<or> u = ''M'' \<or> u = ''G'' \<Longrightarrow> takeWhile isDigit u = [] \<and> dropWhile isDigit u = u"
  by (auto simp: isDigit_def)

lemma memGrammar_split:
  assumes "memGrammar val ds u"
  shows "takeWhile isDigit val = ds" and "dropWhile isDigit val = u"
proof -
  from assms have v: "val = ds @ u" and d: "\<And>x. x \<in> set ds \<Longrightarrow> isDigit x"
    and u: "u = [] \<or> u = ''K'' \<or> u = ''M'' \<or> u = ''G''"
    by (auto simp: memGrammar_def list_all_iff)
  show "takeWhile isDigit val = ds"
    using takeWhile_append2 [of ds isDigit u, OF d] unit_not_digit [OF u] v by simp
  show "dropWhile isDigit val = u"
    using dropWhile_append2 [of ds isDigit u, OF d] unit_not_digit [OF u] v by simp
qed

lemma findStringSubmatch_grammar:
  "memGrammar val ds u \<Longrightarrow> findStringSubmatch val = [val, ds, u]"
  using memGrammar_split [of val ds u]
  by (simp add: findStringSubmatch_def Let_def memGrammar_def)

lemma findStringSubmatch_no_grammar:
  "\<forall>ds u. \<not> memGrammar val ds u \<Longrightarrow> findStringSubmatch val = []"
proof (rule ccontr)
  assume no: "\<forall>ds u. \<not> memGrammar val ds u" and ne: "findStringSubmatch val \<noteq> []"
  let ?ds = "takeWhile isDigit val" and ?u = "dropWhile isDigit val"
  from ne have "?ds \<noteq> [] \<and> (?u = [] \<or> ?u = ''K'' \<or> ?u = ''M'' \<or> ?u = ''G'')"
    by (auto simp: findStringSubmatch_def Let_def split: if_splits)
  moreover have "list_all isDigit ?ds"
    by (simp add: list_all_iff) (meson set_takeWhileD)
  ultimately have "memGrammar val ?ds ?u"
    by (simp add: memGrammar_def)
  with no show False by blast
qed

lemma parseInt_digits:
  assumes "ds \<noteq> []" and "list_all isDigit ds"
  shows "parseInt ds = (if 2 ^ 63 \<le> digitsVal ds then Inl (ErrRange ds) else Inr (word_of_nat (digitsVal ds)))"
proof -
  from assms have "isDigit (hd ds)" by (cases ds) auto
  then have "hd ds \<noteq> CHR ''+''" and "hd ds \<noteq> CHR ''-''"
    by (auto simp: isDigit_def)
  with assms show ?thesis by (simp add: parseInt_def Let_def)
qed

lemma sint_word_of_nat_64:
  assumes "n < 2 ^ 63"
  shows "sint (word_of_nat n :: 64 word) = int n"
proof -
  have "sint (word_of_nat n :: 64 word) = signed_take_bit 63 (int n)"
    by (simp add: signed_of_nat)
  also have "\<dots> = int n"
    using assms by (simp add: signed_take_bit_int_eq_self)
  finally show ?thesis .
qed

lemma scale_word:
  "(word_of_nat n :: 64 word) * 1024 = word_of_nat (n * 1024)"
  by simp

text \<open>
  Claim C8. For every token, \<open>parseMem\<close> returns the byte count digits times
  \<open>1024 ^ k\<close> (k = 0, 1, 2, 3 for no unit, K, M, G) whenever the token is a digit run
  followed by an optional unit K, M or G and that count fits a signed 64-bit integer; and
  for every token outside this grammar it returns the format error and no byte count.
\<close>

theorem parseMem_grammar:
  "(memGrammar val ds u \<and> digitsVal ds * 1024 ^ unitExp u < 2 ^ 63 \<longrightarrow>
      (\<exists>n. parseMem val = Inr n \<and> sint n = int (digitsVal ds * 1024 ^ unitExp u)))
   \<and> ((\<forall>ds u. \<not> memGrammar val ds u) \<longrightarrow> parseMem val = Inl (ErrInvalidMemoryFormat val))"
proof (intro conjI impI)
  assume "\<forall>ds u. \<not> memGrammar val ds u"
  then show "parseMem val = Inl (ErrInvalidMemoryFormat val)"
    by (simp add: parseMem_def findStringSubmatch_no_grammar)
next
  assume a: "memGrammar val ds u \<and> digitsVal ds * 1024 ^ unitExp u < 2 ^ 63"
  then have g: "memGrammar val ds u" and b: "digitsVal ds * 1024 ^ unitExp u < 2 ^ 63"
    by simp_all
  from g have ds: "ds \<noteq> []" "list_all isDigit ds"
    and u: "u = [] \<or> u = ''K'' \<or> u = ''M'' \<or> u = ''G''"
    by (simp_all add: memGrammar_def)
  have "digitsVal ds \<le> digitsVal ds * 1024 ^ unitExp u" by simp
  with b have small: "digitsVal ds < 2 ^ 63" by linarith
  have pi: "parseInt ds = Inr (word_of_nat (digitsVal ds))"
    using parseInt_digits [OF ds] small by simp
  let ?n = "digitsVal ds"
  have pm: "parseMem val = Inr (word_of_nat (?n * 1024 ^ unitExp u))"
    using u by (auto simp: parseMem_def findStringSubmatch_grammar [OF g] pi unitExp_def)
  show "\<exists>n. parseMem val = Inr n \<and> sint n = int (digitsVal ds * 1024 ^ unitExp u)"
    using pm sint_word_of_nat_64 [OF b] by simp
qed

theorem parseMem_grammar_witness:
  "memGrammar ''12K'' ''12'' ''K'' \<and> digitsVal ''12'' * 1024 ^ unitExp ''K'' < 2 ^ 63
   \<and> (\<exists>n. parseMem ''12K'' = Inr n \<and> sint n = 12288)
   \<and> (\<forall>ds u. \<not> memGrammar ''12X'' ds u)
   \<and> parseMem ''12X'' = Inl (ErrInvalidMemoryFormat ''12X'')"
proof -
  have g: "memGrammar ''12K'' ''12'' ''K''"
    by (simp add: memGrammar_def isDigit_def)
  have v: "digitsVal ''12'' * 1024 ^ unitExp ''K'' = 12288"
    by (simp add: digitsVal_def digitVal_def unitExp_def)
  have no: "\<forall>ds u. \<not> memGrammar ''12X'' ds u"
  proof (intro allI notI)
    fix ds u
    assume "memGrammar ''12X'' ds u"
    then have "findStringSubmatch ''12X'' = [''12X'', ds, u]"
      by (rule findStringSubmatch_grammar)
    then show False
      by (simp add: findStringSubmatch_def isDigit_def)
  qed
  from g v no parseMem_grammar [of "''12K''" "''12''" "''K''"] parseMem_grammar [of "''12X''"]
  show ?thesis by simp
qed

section \<open>The resource-limit aggregation\<close>

lemma aggInv_init: "aggInv initAgg"
  by (simp add: aggInv_def initAgg_def)

lemma limitsStep_inv:
  assumes "aggInv a"
  shows "aggInv (fst (limitsStep c a))"
    and "cpuLimit (fst (limitsStep c a)) = max (cpuLimit a) (cpuUnits c)"
    and "memoryLimit (fst (limitsStep c a)) = max (memoryLimit a) (LimitsMemory c)"
  using assms
  by (auto simp: aggInv_def limitsStep_def stepCPU_def stepMemory_def Let_def)

lemma aggregate_inv:
  "aggInv a \<Longrightarrow>
     aggInv (fst (aggregate cs a))
     \<and> cpuLimit (fst (aggregate cs a)) = fold (\<lambda>c m. max m (cpuUnits c)) cs (cpuLimit a)
     \<and> memoryLimit (fst (aggregate cs a)) = fold (\<lambda>c m. max m (LimitsMemory c)) cs (memoryLimit a)"
proof (induction cs arbitrary: a)
  case Nil
  then show ?case by simp
next
  case (Cons c cs)
  from limitsStep_inv [OF Cons.prems, of c] Cons.IH [of "fst (limitsStep c a)"]
  show ?case by (simp add: split_def Let_def)
qed

lemma fold_max_Max:
  fixes f :: "'a \<Rightarrow> int"
  shows "fold (\<lambda>c m. max m (f c)) cs m0 = Max (insert m0 (f ` set cs))"
proof (induction cs arbitrary: m0)
  case Nil
  then show ?case by simp
next
  case (Cons c cs)
  have "Max (insert (max m0 (f c)) (f ` set cs)) = Max (insert m0 (insert (f c) (f ` set cs)))"
    by (cases "set cs = {}") (simp_all add: max.assoc)
  with Cons show ?case by (simp add: insert_commute)
qed

lemma finalLimits_inv: "aggInv (finalLimits cs)"
  using aggregate_inv [OF aggInv_init, of cs] by (simp add: finalLimits_def)

lemma finalLimits_CPU:
  "CPU (resourceLimits (finalLimits cs)) = Max (insert 0 (cpuUnits ` set cs))"
  using aggregate_inv [OF aggInv_init, of cs] fold_max_Max [of cpuUnits cs 0]
  by (simp add: finalLimits_def aggInv_def initAgg_def)

lemma finalLimits_Memory:
  "Memory (resourceLimits (finalLimits cs)) = Max (insert 0 (LimitsMemory ` set cs))"
  using aggregate_inv [OF aggInv_init, of cs] fold_max_Max [of LimitsMemory cs 0]
  by (simp add: finalLimits_def aggInv_def initAgg_def)

lemma Max_insert_zero:
  fixes S :: "int set"
  assumes "finite S"
  shows "(Max (insert 0 S) = 0) = (\<forall>x\<in>S. x \<le> 0)"
proof -
  have ge: "0 \<le> Max (insert 0 S)"
    using assms by (intro Max_ge) auto
  have "(Max (insert 0 S) \<le> 0) = (\<forall>x\<in>insert 0 S. x \<le> 0)"
    using assms by (intro Max_le_iff) auto
  with ge show ?thesis by auto
qed

lemma finalLimits_isDefaultCPU:
  "isDefaultCPU (finalLimits cs) = (\<forall>c\<in>set cs. cpuUnits c \<le> 0)"
proof -
  have "isDefaultCPU (finalLimits cs) = (CPU (resourceLimits (finalLimits cs)) = 0)"
    using finalLimits_inv [of cs] by (simp add: aggInv_def)
  also have "\<dots> = (\<forall>x\<in>cpuUnits ` set cs. x \<le> 0)"
    unfolding finalLimits_CPU by (rule Max_insert_zero) simp
  finally show ?thesis by simp
qed

lemma finalLimits_isDefaultRam:
  "isDefaultRam (finalLimits cs) = (\<forall>c\<in>set cs. LimitsMemory c \<le> 0)"
proof -
  have "isDefaultRam (finalLimits cs) = (Memory (resourceLimits (finalLimits cs)) = 0)"
    using finalLimits_inv [of cs] by (simp add: aggInv_def)
  also have "\<dots> = (\<forall>x\<in>LimitsMemory ` set cs. x \<le> 0)"
    unfolding finalLimits_Memory by (rule Max_insert_zero) simp
  finally show ?thesis by simp
qed

lemma aggInv_determined:
  assumes "aggInv a" and "aggInv b" and "cpuLimit a = cpuLimit b" and "memoryLimit a = memoryLimit b"
  shows "a = b"
proof -
  have "resourceLimits a = resourceLimits b"
    using assms by (intro ResourceLimits.equality) (simp_all add: aggInv_def)
  then show ?thesis
    using assms by (intro Agg.equality) (simp_all add: aggInv_def)
qed

lemma finalLimits_perm:
  assumes "set cs = set cs'"
  shows "finalLimits cs = finalLimits cs'"
proof (rule aggInv_determined)
  show "aggInv (finalLimits cs)" "aggInv (finalLimits cs')" by (rule finalLimits_inv)+
  have "CPU (resourceLimits (finalLimits cs)) = CPU (resourceLimits (finalLimits cs'))"
    using assms by (simp add: finalLimits_CPU)
  then show "cpuLimit (finalLimits cs) = cpuLimit (finalLimits cs')"
    using finalLimits_inv [of cs] finalLimits_inv [of cs'] by (simp add: aggInv_def)
  have "Memory (resourceLimits (finalLimits cs)) = Memory (resourceLimits (finalLimits cs'))"
    using assms by (simp add: finalLimits_Memory)
  then show "memoryLimit (finalLimits cs) = memoryLimit (finalLimits cs')"
    using finalLimits_inv [of cs] finalLimits_inv [of cs'] by (simp add: aggInv_def)
qed

lemmas agg_eval =
  finalLimits_def warnings_def initAgg_def limitsStep_def stepCPU_def stepMemory_def
  cpuUnits_def exContainer_def Let_def

text \<open>
  Claim C5 asks that a container whose declared limit equals the default floor (1 CPU
  unit, 1,048,576 bytes), coming after containers that declared nothing, leaves the
  default flag of that resource set. The comparisons of lines 129 and 141 are made against
  \<open>resourceLimits\<close>, where lines 127 and 139 have stored the floor, and against that
  floor a tie does keep the flag; but lines 149 and 150 have overwritten the floor with
  the running limits, still 0, before the next container is compared. Evaluated on a
  container that declares nothing followed by one that declares exactly 1 CPU and
  1,048,576 bytes: the first branch stores the floor and a tie against it keeps the flag,
  yet after the first container the ceilings are 0 with both flags set, and after the
  second both flags are cleared.
\<close>

theorem floor_tie_clears_flag:
  "CPU (resourceLimits (fst (stepCPU ''a'' 0 initAgg))) = 1
   \<and> isDefaultCPU (fst (stepCPU ''b'' 1 (fst (stepCPU ''a'' 0 initAgg))))
   \<and> CPU (resourceLimits (finalLimits [exContainer ''a'' 0 0])) = 0
   \<and> isDefaultCPU (finalLimits [exContainer ''a'' 0 0])
   \<and> cpuUnits (exContainer ''b'' 1 1048576) = 1
   \<and> \<not> isDefaultCPU (finalLimits [exContainer ''a'' 0 0, exContainer ''b'' 1 1048576])
   \<and> Memory (resourceLimits (fst (stepMemory ''a'' 0 initAgg))) = 1048576
   \<and> isDefaultRam (fst (stepMemory ''b'' 1048576 (fst (stepMemory ''a'' 0 initAgg))))
   \<and> Memory (resourceLimits (finalLimits [exContainer ''a'' 0 0])) = 0
   \<and> isDefaultRam (finalLimits [exContainer ''a'' 0 0])
   \<and> LimitsMemory (exContainer ''b'' 1 1048576) = 1048576
   \<and> \<not> isDefaultRam (finalLimits [exContainer ''a'' 0 0, exContainer ''b'' 1 1048576])"
  by (simp add: agg_eval)

text \<open>
  Claim C6. Permuting the container list never changes the final CPU ceiling or the final
  memory ceiling that the aggregation computes, nor any other limit variable of the loop;
  the warnings may differ.
\<close>

theorem ceiling_order_invariant:
  assumes "mset cs = mset cs'"
  shows "CPU (resourceLimits (finalLimits cs)) = CPU (resourceLimits (finalLimits cs'))
         \<and> Memory (resourceLimits (finalLimits cs)) = Memory (resourceLimits (finalLimits cs'))
         \<and> finalLimits cs = finalLimits cs'"
proof -
  from assms have "set cs = set cs'" by (rule mset_eq_setD)
  then have "finalLimits cs = finalLimits cs'" by (rule finalLimits_perm)
  then show ?thesis by simp
qed

theorem ceiling_order_invariant_witness:
  "mset [exContainer ''a'' 0 2097152, exContainer ''b'' 3 1048576]
     = mset [exContainer ''b'' 3 1048576, exContainer ''a'' 0 2097152]
   \<and> CPU (resourceLimits (finalLimits [exContainer ''a'' 0 2097152, exContainer ''b'' 3 1048576]))
     = CPU (resourceLimits (finalLimits [exContainer ''b'' 3 1048576, exContainer ''a'' 0 2097152]))
   \<and> Memory (resourceLimits (finalLimits [exContainer ''a'' 0 2097152, exContainer ''b'' 3 1048576]))
     = Memory (resourceLimits (finalLimits [exContainer ''b'' 3 1048576, exContainer ''a'' 0 2097152]))
   \<and> finalLimits [exContainer ''a'' 0 2097152, exContainer ''b'' 3 1048576]
     = finalLimits [exContainer ''b'' 3 1048576, exContainer ''a'' 0 2097152]
   \<and> warnings [exContainer ''a'' 0 2097152, exContainer ''b'' 3 1048576]
     \<noteq> warnings [exContainer ''b'' 3 1048576, exContainer ''a'' 0 2097152]"
proof -
  have m: "mset [exContainer ''a'' 0 2097152, exContainer ''b'' 3 1048576]
             = mset [exContainer ''b'' 3 1048576, exContainer ''a'' 0 2097152]"
    by simp
  have w: "warnings [exContainer ''a'' 0 2097152, exContainer ''b'' 3 1048576]
             \<noteq> warnings [exContainer ''b'' 3 1048576, exContainer ''a'' 0 2097152]"
    by (simp add: agg_eval)
  from m w ceiling_order_invariant [OF m] show ?thesis by simp
qed

section \<open>Removing read-only markers\<close>

lemma stripRO_Nil: "stripRO [] = []"
  by (simp add: stripRO_def ReplaceAll_def)

lemma stripRO_Cons:
  "stripRO (c # cs) = (if take 3 (c # cs) = '':ro'' then stripRO (drop 2 cs) else c # stripRO cs)"
  by (simp add: stripRO_def ReplaceAll_def eval_nat_numeral)

lemma contains_Cons: "contains cs sub \<Longrightarrow> contains (c # cs) sub"
  by simp

lemma contains_ro_Cons:
  "contains (c # cs) '':ro'' = (take 3 (c # cs) = '':ro'' \<or> contains cs '':ro'')"
proof -
  have l: "length '':ro'' = 3" by simp
  show ?thesis by (subst contains.simps) (simp only: l)
qed

lemma contains_drop: "contains (drop n s) sub \<Longrightarrow> contains s sub"
proof (induction s arbitrary: n)
  case Nil
  then show ?case by simp
next
  case (Cons c cs)
  show ?case
  proof (cases n)
    case 0
    with Cons.prems show ?thesis by simp
  next
    case (Suc m)
    with Cons.prems have "contains (drop m cs) sub" by simp
    then have "contains cs sub" by (rule Cons.IH)
    then show ?thesis by simp
  qed
qed

lemma no_new_marker_at_head:
  assumes "take 3 (c # cs) \<noteq> '':ro''"
    and "take 4 (c # cs) \<noteq> ''::ro''"
    and "take 5 (c # cs) \<noteq> '':r:ro''"
  shows "take 3 (c # stripRO cs) \<noteq> '':ro''"
proof (cases cs)
  case Nil
  then show ?thesis by (simp add: stripRO_Nil)
next
  case cs: (Cons d ds)
  show ?thesis
  proof (cases ds)
    case Nil
    with cs assms show ?thesis by (simp add: stripRO_Cons stripRO_Nil)
  next
    case ds: (Cons e es)
    show ?thesis
    proof (cases es)
      case Nil
      with cs ds assms show ?thesis by (auto simp: stripRO_Cons stripRO_Nil)
    next
      case es: (Cons f fs)
      show ?thesis
      proof (cases fs)
        case Nil
        with cs ds es assms show ?thesis by (auto simp: stripRO_Cons stripRO_Nil)
      next
        case (Cons g gs)
        with cs ds es assms show ?thesis by (auto simp: stripRO_Cons stripRO_Nil)
      qed
    qed
  qed
qed

lemma stripRO_no_marker:
  "\<not> contains s ''::ro'' \<Longrightarrow> \<not> contains s '':r:ro'' \<Longrightarrow> \<not> contains (stripRO s) '':ro''"
proof (induction s rule: length_induct)
  case (1 s)
  show ?case
  proof (cases s)
    case Nil
    then show ?thesis by (simp add: stripRO_Nil)
  next
    case (Cons c cs)
    show ?thesis
    proof (cases "take 3 (c # cs) = '':ro''")
      case True
      have len: "length (drop 2 cs) < length s" using Cons by simp
      have d: "drop 2 cs = drop 3 s" using Cons by simp
      have "\<not> contains (drop 2 cs) ''::ro''"
        using "1.prems"(1) contains_drop [of 3 s "''::ro''"] unfolding d by blast
      moreover have "\<not> contains (drop 2 cs) '':r:ro''"
        using "1.prems"(2) contains_drop [of 3 s "'':r:ro''"] unfolding d by blast
      ultimately have "\<not> contains (drop 2 cs) ''::ro'' \<and> \<not> contains (drop 2 cs) '':r:ro''"
        by simp
      with "1.IH" len have "\<not> contains (stripRO (drop 2 cs)) '':ro''" by blast
      with True Cons show ?thesis by (simp add: stripRO_Cons)
    next
      case False
      have len: "length cs < length s" using Cons by simp
      have p: "\<not> contains cs ''::ro''" "\<not> contains cs '':r:ro''"
        using "1.prems" Cons by auto
      with "1.IH" len have tl: "\<not> contains (stripRO cs) '':ro''" by blast
      have "take 4 (c # cs) \<noteq> ''::ro''" "take 5 (c # cs) \<noteq> '':r:ro''"
        using "1.prems" Cons by (auto simp: eval_nat_numeral)
      with False have h: "take 3 (c # stripRO cs) \<noteq> '':ro''"
        by (rule no_new_marker_at_head)
      have eq: "stripRO (c # cs) = c # stripRO cs"
        using False by (simp only: stripRO_Cons if_False)
      have "\<not> contains (c # stripRO cs) '':ro''"
        unfolding contains_ro_Cons using tl h by blast
      then show ?thesis unfolding Cons eq .
    qed
  qed
qed

section \<open>The per-container loop\<close>

lemma limitsStep_warnings: "list_all isWarning (snd (limitsStep c a))"
  by (simp add: limitsStep_def stepCPU_def stepMemory_def Let_def split_def)

lemma isWarning_containerLevel: "isWarning e \<Longrightarrow> containerLevel e"
  by (cases e) simp_all

lemma containerLevel_not_visible: "containerLevel e \<Longrightarrow> \<not> schedulerVisible e"
  by (cases e) simp_all

lemma filter_warnings_Nil: "list_all isWarning w \<Longrightarrow> filter (\<lambda>e. \<not> isWarning e) w = []"
  by (induction w) simp_all

lemma processContainer_Inl:
  assumes "prepareMounts K cfg data c path = Inl err"
  shows "processContainer K cfg rt data path i c st =
           Inl (st\<lparr>agg := fst (limitsStep c (agg st)),
                   events := events st @ snd (limitsStep c (agg st)) @ [EvPrepareMounts (Name c)]
                             @ handleError StatusGatewayTimeout err @ [EvRemoveAll path]\<rparr>)"
  using assms by (simp add: processContainer_def split_def Let_def)

lemma processContainer_Inr_explicit:
  assumes "prepareMounts K cfg data c path = Inr m"
  shows "processContainer K cfg rt data path i c st =
           Inr (st\<lparr>agg := fst (limitsStep c (agg st)),
                   events := events st @ snd (limitsStep c (agg st)) @ perContainerCalls c,
                   runtime_command_pod := runtime_command_pod st @
                     [\<lparr>containerName = Name c,
                       isInitContainer = (i < length (InitContainers data)),
                       runtimeCommand =
                         assembleCommand cfg data c (prepareCommand K rt cfg c data)
                           (prepareEnvs K cfg data c) m (prepareImage K cfg data (Image c)),
                       containerCommand = Command c,
                       containerArgs = Args c,
                       containerImage = prepareImage K cfg data (Image c)\<rparr>]\<rparr>)"
  using assms by (simp add: processContainer_def split_def Let_def perContainerCalls_def)

lemma processContainer_Inr:
  assumes "prepareMounts K cfg data c path = Inr m"
  shows "\<exists>cc. processContainer K cfg rt data path i c st =
           Inr (st\<lparr>agg := fst (limitsStep c (agg st)),
                   events := events st @ snd (limitsStep c (agg st)) @ perContainerCalls c,
                   runtime_command_pod := runtime_command_pod st @ [cc]\<rparr>)"
  using processContainer_Inr_explicit [OF assms] by blast

lemma loop_Inr:
  "processContainers K cfg rt data path i cs st = Inr st' \<Longrightarrow>
     (\<forall>c\<in>set cs. \<exists>m. prepareMounts K cfg data c path = Inr m)
     \<and> agg st' = fst (aggregate cs (agg st))
     \<and> (\<exists>pre. events st' = events st @ pre \<and> list_all containerLevel pre
              \<and> filter (\<lambda>e. \<not> isWarning e) pre = concat (map perContainerCalls cs))"
proof (induction cs arbitrary: st i)
  case Nil
  then show ?case by simp
next
  case (Cons c cs)
  show ?case
  proof (cases "prepareMounts K cfg data c path")
    case (Inl err)
    with Cons.prems show ?thesis by (simp add: processContainer_Inl)
  next
    case (Inr m)
    from processContainer_Inr [OF Inr, of rt i st] obtain cc where
      pc: "processContainer K cfg rt data path i c st =
             Inr (st\<lparr>agg := fst (limitsStep c (agg st)),
                     events := events st @ snd (limitsStep c (agg st)) @ perContainerCalls c,
                     runtime_command_pod := runtime_command_pod st @ [cc]\<rparr>)"
      by blast
    let ?st1 = "st\<lparr>agg := fst (limitsStep c (agg st)),
                     events := events st @ snd (limitsStep c (agg st)) @ perContainerCalls c,
                     runtime_command_pod := runtime_command_pod st @ [cc]\<rparr>"
    from Cons.prems pc have "processContainers K cfg rt data path (Suc i) cs ?st1 = Inr st'"
      by simp
    from Cons.IH [OF this] have
      ihA: "\<forall>c\<in>set cs. \<exists>m. prepareMounts K cfg data c path = Inr m"
      and ihB: "agg st' = fst (aggregate cs (agg ?st1))"
      and ihC: "\<exists>pre. events st' = events ?st1 @ pre \<and> list_all containerLevel pre
                  \<and> filter (\<lambda>e. \<not> isWarning e) pre = concat (map perContainerCalls cs)"
      by blast+
    from ihC obtain pre where
      ih3: "events st' = events ?st1 @ pre" and ih4: "list_all containerLevel pre"
      and ih5: "filter (\<lambda>e. \<not> isWarning e) pre = concat (map perContainerCalls cs)"
      by blast
    have ih1: "\<forall>c\<in>set cs. \<exists>m. prepareMounts K cfg data c path = Inr m" by (rule ihA)
    have ih2: "agg st' = fst (aggregate cs (fst (limitsStep c (agg st))))"
      using ihB by simp
    let ?w = "snd (limitsStep c (agg st))"
    have w: "list_all isWarning ?w" by (rule limitsStep_warnings)
    then have wc: "list_all containerLevel ?w"
      by (simp add: list_all_iff isWarning_containerLevel)
    have "events st' = events st @ (?w @ perContainerCalls c @ pre)"
      using ih3 by simp
    moreover have "list_all containerLevel (?w @ perContainerCalls c @ pre)"
      using wc ih4 by (simp add: perContainerCalls_def)
    moreover have "filter (\<lambda>e. \<not> isWarning e) (?w @ perContainerCalls c @ pre)
                     = concat (map perContainerCalls (c # cs))"
      using filter_warnings_Nil [OF w] ih5 by (simp add: perContainerCalls_def)
    ultimately have ev: "\<exists>pre. events st' = events st @ pre \<and> list_all containerLevel pre
        \<and> filter (\<lambda>e. \<not> isWarning e) pre = concat (map perContainerCalls (c # cs))"
      by blast
    have ag: "agg st' = fst (aggregate (c # cs) (agg st))"
      using ih2 by (simp add: split_def Let_def)
    have mo: "\<forall>c'\<in>set (c # cs). \<exists>m. prepareMounts K cfg data c' path = Inr m"
      using ih1 Inr by simp
    from mo ag ev show ?thesis by blast
  qed
qed

lemma loop_Inl:
  "processContainers K cfg rt data path i cs st = Inl st' \<Longrightarrow>
     \<exists>c\<in>set cs. \<exists>err pre. prepareMounts K cfg data c path = Inl err
        \<and> events st' = events st @ pre @ handleError StatusGatewayTimeout err @ [EvRemoveAll path]
        \<and> list_all containerLevel pre"
proof (induction cs arbitrary: st i)
  case Nil
  then show ?case by simp
next
  case (Cons c cs)
  let ?w = "snd (limitsStep c (agg st))"
  have wc: "list_all containerLevel ?w"
    using limitsStep_warnings [of c "agg st"] by (simp add: list_all_iff isWarning_containerLevel)
  show ?case
  proof (cases "prepareMounts K cfg data c path")
    case (Inl err)
    with Cons.prems have
      "events st' = events st @ (?w @ [EvPrepareMounts (Name c)])
                      @ handleError StatusGatewayTimeout err @ [EvRemoveAll path]"
      by (auto simp: processContainer_Inl)
    moreover have "list_all containerLevel (?w @ [EvPrepareMounts (Name c)])"
      using wc by simp
    ultimately show ?thesis using Inl by (intro bexI [of _ c]) auto
  next
    case (Inr m)
    from processContainer_Inr [OF Inr, of rt i st] obtain cc where
      pc: "processContainer K cfg rt data path i c st =
             Inr (st\<lparr>agg := fst (limitsStep c (agg st)),
                     events := events st @ snd (limitsStep c (agg st)) @ perContainerCalls c,
                     runtime_command_pod := runtime_command_pod st @ [cc]\<rparr>)"
      by blast
    let ?st1 = "st\<lparr>agg := fst (limitsStep c (agg st)),
                     events := events st @ snd (limitsStep c (agg st)) @ perContainerCalls c,
                     runtime_command_pod := runtime_command_pod st @ [cc]\<rparr>"
    from Cons.prems pc have "processContainers K cfg rt data path (Suc i) cs ?st1 = Inl st'"
      by simp
    from Cons.IH [OF this] obtain c' err pre where
      ih: "c' \<in> set cs" "prepareMounts K cfg data c' path = Inl err"
          "events st' = events ?st1 @ pre @ handleError StatusGatewayTimeout err @ [EvRemoveAll path]"
          "list_all containerLevel pre"
      by blast
    have "events st' = events st @ (?w @ perContainerCalls c @ pre)
                         @ handleError StatusGatewayTimeout err @ [EvRemoveAll path]"
      using ih(3) by simp
    moreover have "list_all containerLevel (?w @ perContainerCalls c @ pre)"
      using wc ih(4) by (simp add: perContainerCalls_def)
    ultimately show ?thesis using ih(1,2) by (intro bexI [of _ c']) auto
  qed
qed

lemma loop_fails:
  assumes "\<exists>c\<in>set cs. \<exists>err. prepareMounts K cfg data c path = Inl err"
  shows "\<exists>st'. processContainers K cfg rt data path i cs st = Inl st'"
proof (cases "processContainers K cfg rt data path i cs st")
  case (Inl st')
  then show ?thesis by blast
next
  case (Inr st')
  from loop_Inr [OF Inr] assms show ?thesis by auto
qed

lemma loop_succeeds:
  assumes "\<forall>c\<in>set cs. \<exists>m. prepareMounts K cfg data c path = Inr m"
  shows "\<exists>st'. processContainers K cfg rt data path i cs st = Inr st'"
proof (cases "processContainers K cfg rt data path i cs st")
  case (Inr st')
  then show ?thesis by blast
next
  case (Inl st')
  from loop_Inl [OF Inl] assms show ?thesis by auto
qed

section \<open>The submission handler\<close>

lemmas status_defs = StatusOK_def StatusInternalServerError_def StatusGatewayTimeout_def

lemma headers_append: "headers (xs @ ys) = headers xs @ headers ys"
  by (induction xs rule: headers.induct) simp_all

lemma headers_containerLevel: "list_all containerLevel pre \<Longrightarrow> headers pre = []"
  by (induction pre rule: headers.induct) simp_all

lemma headers_handleError: "headers (handleError code err) = [code]"
  by (simp add: handleError_def)

lemma response_containerLevel: "list_all containerLevel pre \<Longrightarrow> filter responseWrite pre = []"
proof (induction pre)
  case Nil
  then show ?case by simp
next
  case (Cons e pre)
  then show ?case by (cases e) simp_all
qed

lemma no_visible_containerLevel: "list_all containerLevel pre \<Longrightarrow> \<not> list_ex schedulerVisible pre"
  by (auto simp: list_all_iff list_ex_iff containerLevel_not_visible)

lemma no_record_containerLevel: "list_all containerLevel pre \<Longrightarrow> \<not> list_ex recordsJob pre"
proof (induction pre)
  case Nil
  then show ?case by simp
next
  case (Cons e pre)
  then show ?case by (cases e) simp_all
qed

lemma no_delete_containerLevel:
  "list_all containerLevel pre \<Longrightarrow> filter isDeleteContainer pre = []"
proof (induction pre)
  case Nil
  then show ?case by simp
next
  case (Cons e pre)
  then show ?case by (cases e) simp_all
qed

lemma takeWhile_containerLevel:
  assumes "list_all containerLevel pre" and "schedulerVisible e"
  shows "takeWhile (\<lambda>e. \<not> schedulerVisible e) (pre @ e # post) = pre"
proof -
  have "\<And>x. x \<in> set pre \<Longrightarrow> \<not> schedulerVisible x"
    using assms(1) by (simp add: list_all_iff containerLevel_not_visible)
  then have "takeWhile (\<lambda>e. \<not> schedulerVisible e) (pre @ e # post)
               = pre @ takeWhile (\<lambda>e. \<not> schedulerVisible e) (e # post)"
    by (rule takeWhile_append2)
  with assms(2) show ?thesis by simp
qed

text \<open>The handler, stage by stage.\<close>

lemma handler_body_fails:
  "readAll K = Inl err \<Longrightarrow>
     SubmitHandler K cfg jids =
       \<lparr>trace = handleError StatusInternalServerError err, store = jids,
        statusCode = StatusInternalServerError\<rparr>"
  by (simp add: SubmitHandler_def)

lemma handler_runtime_fails:
  "readAll K = Inr body \<Longrightarrow> createRuntime (ContainerRuntime cfg) = Inl err \<Longrightarrow>
     SubmitHandler K cfg jids =
       \<lparr>trace = handleError StatusInternalServerError err, store = jids,
        statusCode = StatusInternalServerError\<rparr>"
  by (simp add: SubmitHandler_def)

lemma handler_unmarshal_fails:
  "readAll K = Inr body \<Longrightarrow> createRuntime (ContainerRuntime cfg) = Inr rt \<Longrightarrow>
   jsonUnmarshal K body = Inl err \<Longrightarrow>
     SubmitHandler K cfg jids =
       \<lparr>trace = handleError StatusGatewayTimeout err, store = jids,
        statusCode = StatusInternalServerError\<rparr>"
  by (simp add: SubmitHandler_def)

lemma handler_loop_fails:
  "readAll K = Inr body \<Longrightarrow> createRuntime (ContainerRuntime cfg) = Inr rt \<Longrightarrow>
   jsonUnmarshal K body = Inr data \<Longrightarrow> loopOutcome K cfg rt data = Inl st \<Longrightarrow>
     SubmitHandler K cfg jids =
       \<lparr>trace = events st, store = jids, statusCode = StatusInternalServerError\<rparr>"
  by (simp add: SubmitHandler_def loopOutcome_def Let_def)

lemma handler_loop_done:
  "readAll K = Inr body \<Longrightarrow> createRuntime (ContainerRuntime cfg) = Inr rt \<Longrightarrow>
   jsonUnmarshal K body = Inr data \<Longrightarrow> loopOutcome K cfg rt data = Inr st \<Longrightarrow>
     SubmitHandler K cfg jids = generateAndSubmit K cfg jids data (podFilesPath cfg data) st"
  by (simp add: SubmitHandler_def loopOutcome_def Let_def)

lemma script_event:
  "generateAndSubmit K cfg jids data path st =
     out \<Longrightarrow> \<exists>post. trace out =
        events st @ EvProduceSLURMScript (runtime_command_pod st) (resourceLimits (agg st))
                       (isDefaultCPU (agg st)) (isDefaultRam (agg st)) # post"
  by (auto simp: generateAndSubmit_def recordAndRespond_def Let_def
           split: sum.splits prod.splits option.splits)

lemma loopOutcome_Inl:
  assumes "loopOutcome K cfg rt data = Inl st"
  shows "\<exists>c\<in>set (podContainers data). \<exists>err pre.
           prepareMounts K cfg data c (podFilesPath cfg data) = Inl err
           \<and> events st = pre @ handleError StatusGatewayTimeout err @ [EvRemoveAll (podFilesPath cfg data)]
           \<and> list_all containerLevel pre"
  using loop_Inl [OF assms [unfolded loopOutcome_def]] by (simp add: initLoopState_def)

lemma loopOutcome_Inr:
  assumes "loopOutcome K cfg rt data = Inr st"
  shows "(\<forall>c\<in>set (podContainers data). \<exists>m. prepareMounts K cfg data c (podFilesPath cfg data) = Inr m)
         \<and> agg st = finalLimits (podContainers data)
         \<and> list_all containerLevel (events st)
         \<and> filter (\<lambda>e. \<not> isWarning e) (events st) = concat (map perContainerCalls (podContainers data))"
  using loop_Inr [OF assms [unfolded loopOutcome_def]]
  by (simp add: initLoopState_def finalLimits_def)

lemma loopOutcome_fails:
  assumes "\<exists>c\<in>set (podContainers data). \<exists>err. prepareMounts K cfg data c (podFilesPath cfg data) = Inl err"
  shows "\<exists>st. loopOutcome K cfg rt data = Inl st"
  unfolding loopOutcome_def using assms by (rule loop_fails)

lemma generate_script_fails:
  assumes "scriptOutcome K cfg data st = Inl err"
  shows "generateAndSubmit K cfg jids data (podFilesPath cfg data) st =
           \<lparr>trace = events st
                @ [EvProduceSLURMScript (runtime_command_pod st) (resourceLimits (agg st))
                     (isDefaultCPU (agg st)) (isDefaultRam (agg st)),
                   EvLogError err, EvRemoveAll (podFilesPath cfg data)],
            store = jids, statusCode = StatusOK\<rparr>"
  using assms by (simp add: generateAndSubmit_def scriptOutcome_def Let_def)

lemma generate_submit_fails:
  assumes "scriptOutcome K cfg data st = Inr path" and "SLURMBatchSubmit K cfg path = Inl err"
  shows "generateAndSubmit K cfg jids data (podFilesPath cfg data) st =
           \<lparr>trace = events st
                @ [EvProduceSLURMScript (runtime_command_pod st) (resourceLimits (agg st))
                     (isDefaultCPU (agg st)) (isDefaultRam (agg st)),
                   EvSLURMBatchSubmit path]
                @ handleError StatusGatewayTimeout err @ [EvRemoveAll (podFilesPath cfg data)],
            store = jids, statusCode = StatusInternalServerError\<rparr>"
  using assms by (simp add: generateAndSubmit_def scriptOutcome_def Let_def)

lemma generate_submitted:
  assumes "scriptOutcome K cfg data st = Inr path" and "SLURMBatchSubmit K cfg path = Inr out"
  shows "generateAndSubmit K cfg jids data (podFilesPath cfg data) st =
           recordAndRespond K cfg jids data (podFilesPath cfg data) out
             (events st
                @ [EvProduceSLURMScript (runtime_command_pod st) (resourceLimits (agg st))
                     (isDefaultCPU (agg st)) (isDefaultRam (agg st)),
                   EvSLURMBatchSubmit path])"
  using assms by (simp add: generateAndSubmit_def scriptOutcome_def Let_def)

lemma record_fails:
  assumes "handleJidAndPodUid K data jids out path = (Inl err, jids1)"
  shows "recordAndRespond K cfg jids data path out evs =
           \<lparr>trace = evs @ [EvHandleJidAndPodUid (UID data) out]
                @ handleError StatusGatewayTimeout err
                @ [EvRemoveAll path, EvDeleteContainer (UID data) path]
                @ (case fst (deleteContainer K cfg (UID data) jids1 path) of
                     Some err' \<Rightarrow> [EvLogError err'] | None \<Rightarrow> []),
            store = snd (deleteContainer K cfg (UID data) jids1 path),
            statusCode = StatusInternalServerError\<rparr>"
  using assms
  by (cases "deleteContainer K cfg (UID data) jids1 path")
     (simp add: recordAndRespond_def Let_def split: option.splits)

lemma marshal_fails:
  assumes "handleJidAndPodUid K data jids out path = (Inr jid, jids1)"
    and "jsonMarshal K \<lparr>PodUID = UID data, PodJID = jid\<rparr> = Inl err"
  shows "recordAndRespond K cfg jids data path out evs =
           \<lparr>trace = evs @ [EvHandleJidAndPodUid (UID data) out]
                @ handleError StatusInternalServerError err,
            store = jids1, statusCode = StatusInternalServerError\<rparr>"
  using assms by (simp add: recordAndRespond_def Let_def)

lemma responded:
  assumes "handleJidAndPodUid K data jids out path = (Inr jid, jids1)"
    and "jsonMarshal K \<lparr>PodUID = UID data, PodJID = jid\<rparr> = Inr bytes"
  shows "recordAndRespond K cfg jids data path out evs =
           \<lparr>trace = evs @ [EvHandleJidAndPodUid (UID data) out, EvWriteHeader StatusOK,
                            EvWrite bytes],
            store = jids1, statusCode = StatusOK\<rparr>"
  using assms by (simp add: recordAndRespond_def Let_def)

lemmas handler_eval =
  SubmitHandler_def generateAndSubmit_def recordAndRespond_def processContainer_def
  initLoopState_def handleError_def assembleCommand_def createRuntime_def response_def
  limitsStep_def stepCPU_def stepMemory_def initAgg_def cpuUnits_def Let_def
  podContainers_def podFilesPath_def perContainerCalls_def status_defs
  exCollab_def exPod_def exPod2_def exContainer_def exConfig_def
  exFailMounts_def exFailBody_def exFailUnmarshal_def exFailScript_def exFailSubmit_def
  exFailRecord_def exFailMarshal_def

text \<open>
  Claim C4. For a submission that reaches the container loop: if mount preparation fails
  for any container, the trace holds no script generation and no job submission, the
  recorder is never called, the last action is the removal of the working directory and
  the job-tracking store is unchanged; and whenever script generation or submission
  occurs at all, mount preparation has succeeded for every container and the events
  before the first such action are, warnings apart, exactly the four collaborator calls
  of every container in the order of the pod.
\<close>

theorem staged_side_effects:
  assumes "readAll K = Inr body"
    and "createRuntime (ContainerRuntime cfg) = Inr rt"
    and "jsonUnmarshal K body = Inr data"
  shows "((\<exists>c\<in>set (podContainers data). \<exists>err.
             prepareMounts K cfg data c (podFilesPath cfg data) = Inl err) \<longrightarrow>
            \<not> list_ex schedulerVisible (trace (SubmitHandler K cfg jids))
            \<and> \<not> list_ex recordsJob (trace (SubmitHandler K cfg jids))
            \<and> last (trace (SubmitHandler K cfg jids)) = EvRemoveAll (podFilesPath cfg data)
            \<and> store (SubmitHandler K cfg jids) = jids)
       \<and> (list_ex schedulerVisible (trace (SubmitHandler K cfg jids)) \<longrightarrow>
            (\<forall>c\<in>set (podContainers data). \<exists>m.
               prepareMounts K cfg data c (podFilesPath cfg data) = Inr m)
            \<and> filter (\<lambda>e. \<not> isWarning e)
                 (takeWhile (\<lambda>e. \<not> schedulerVisible e) (trace (SubmitHandler K cfg jids)))
               = concat (map perContainerCalls (podContainers data)))"
proof (cases "loopOutcome K cfg rt data")
  case (Inl st)
  from loopOutcome_Inl [OF Inl] obtain c err pre where
    c: "c \<in> set (podContainers data)"
    and ev: "events st = pre @ handleError StatusGatewayTimeout err @ [EvRemoveAll (podFilesPath cfg data)]"
    and pre: "list_all containerLevel pre"
    by blast
  have h: "SubmitHandler K cfg jids =
             \<lparr>trace = events st, store = jids, statusCode = StatusInternalServerError\<rparr>"
    using assms Inl by (rule handler_loop_fails)
  have nv: "\<not> list_ex schedulerVisible (events st)"
    using no_visible_containerLevel [OF pre] by (simp add: ev handleError_def)
  have nr: "\<not> list_ex recordsJob (events st)"
    using no_record_containerLevel [OF pre] by (simp add: ev handleError_def)
  have la: "last (events st) = EvRemoveAll (podFilesPath cfg data)"
    by (simp add: ev)
  from nv nr la show ?thesis by (simp add: h)
next
  case (Inr st)
  from loopOutcome_Inr [OF Inr] have
    ok: "\<forall>c\<in>set (podContainers data). \<exists>m. prepareMounts K cfg data c (podFilesPath cfg data) = Inr m"
    and cl: "list_all containerLevel (events st)"
    and calls: "filter (\<lambda>e. \<not> isWarning e) (events st) = concat (map perContainerCalls (podContainers data))"
    by blast+
  have h: "SubmitHandler K cfg jids = generateAndSubmit K cfg jids data (podFilesPath cfg data) st"
    using assms Inr by (rule handler_loop_done)
  from script_event [OF h [symmetric]] obtain post where
    tr: "trace (SubmitHandler K cfg jids) =
           events st @ EvProduceSLURMScript (runtime_command_pod st) (resourceLimits (agg st))
                         (isDefaultCPU (agg st)) (isDefaultRam (agg st)) # post"
    by blast
  have tw: "takeWhile (\<lambda>e. \<not> schedulerVisible e) (trace (SubmitHandler K cfg jids)) = events st"
    unfolding tr by (rule takeWhile_containerLevel [OF cl]) simp
  have nofail: "\<not> (\<exists>c\<in>set (podContainers data). \<exists>err.
                     prepareMounts K cfg data c (podFilesPath cfg data) = Inl err)"
    using ok by auto
  from nofail ok calls show ?thesis by (simp add: tw)
qed

theorem staged_side_effects_witness:
  "(\<exists>c\<in>set (podContainers exPod2). \<exists>err.
      prepareMounts (exFailMounts (exCollab exPod2 ''--bind /d'') ''b'') (exConfig ''singularity'')
        exPod2 c (podFilesPath (exConfig ''singularity'') exPod2) = Inl err)
   \<and> \<not> list_ex schedulerVisible
         (trace (SubmitHandler (exFailMounts (exCollab exPod2 ''--bind /d'') ''b'')
                   (exConfig ''singularity'') Map.empty))
   \<and> last (trace (SubmitHandler (exFailMounts (exCollab exPod2 ''--bind /d'') ''b'')
                   (exConfig ''singularity'') Map.empty))
       = EvRemoveAll ''/tmp/ns-uid-1''
   \<and> store (SubmitHandler (exFailMounts (exCollab exPod2 ''--bind /d'') ''b'')
              (exConfig ''singularity'') Map.empty) = Map.empty
   \<and> list_ex schedulerVisible
         (trace (SubmitHandler (exCollab exPod2 ''--bind /d'') (exConfig ''singularity'') Map.empty))
   \<and> filter (\<lambda>e. \<not> isWarning e)
        (takeWhile (\<lambda>e. \<not> schedulerVisible e)
           (trace (SubmitHandler (exCollab exPod2 ''--bind /d'') (exConfig ''singularity'')
                     Map.empty)))
       = [EvPrepareMounts ''a'', EvPrepareEnvs ''a'', EvPrepareImage ''a'', EvPrepareCommand ''a'',
          EvPrepareMounts ''b'', EvPrepareEnvs ''b'', EvPrepareImage ''b'', EvPrepareCommand ''b'']"
proof -
  let ?cfg = "exConfig ''singularity''"
  let ?K = "exCollab exPod2 ''--bind /d''"
  let ?F = "exFailMounts ?K ''b''"
  have rt: "createRuntime (ContainerRuntime ?cfg) = Inr SingularityRuntime"
    by (simp add: createRuntime_def exConfig_def)
  have f1: "readAll ?F = Inr ''{}''" and f2: "jsonUnmarshal ?F ''{}'' = Inr exPod2"
    by (simp_all add: exFailMounts_def exCollab_def)
  have k1: "readAll ?K = Inr ''{}''" and k2: "jsonUnmarshal ?K ''{}'' = Inr exPod2"
    by (simp_all add: exCollab_def)
  have fails: "\<exists>c\<in>set (podContainers exPod2). \<exists>err.
      prepareMounts ?F ?cfg exPod2 c (podFilesPath ?cfg exPod2) = Inl err"
    by (simp add: podContainers_def exPod2_def exPod_def exFailMounts_def exCollab_def
          exContainer_def)
  have visible: "list_ex schedulerVisible (trace (SubmitHandler ?K ?cfg Map.empty))"
    by (simp add: handler_eval)
  have path: "podFilesPath ?cfg exPod2 = ''/tmp/ns-uid-1''"
    by (simp add: podFilesPath_def exConfig_def exPod2_def exPod_def)
  have calls: "concat (map perContainerCalls (podContainers exPod2))
      = [EvPrepareMounts ''a'', EvPrepareEnvs ''a'', EvPrepareImage ''a'', EvPrepareCommand ''a'',
         EvPrepareMounts ''b'', EvPrepareEnvs ''b'', EvPrepareImage ''b'', EvPrepareCommand ''b'']"
    by (simp add: podContainers_def exPod2_def exPod_def perContainerCalls_def exContainer_def)
  from staged_side_effects [OF f1 rt f2, of Map.empty] fails
    staged_side_effects [OF k1 rt k2, of Map.empty] visible
  show ?thesis unfolding path calls by blast
qed

text \<open>
  Claim C7. Runtime selection succeeds exactly for the names "singularity" and "enroot" and
  fails with an error for every other name. The handler selects the runtime right after
  reading the body, before the pod is decoded and before the loop: with any other
  configured name the submission ends with the error response (status 500, which a
  failed body read gives as well), the store untouched, and no container-level and no
  scheduler-visible action in its trace.
\<close>

theorem runtime_selection:
  "(createRuntime n = Inr SingularityRuntime \<longleftrightarrow> n = ''singularity'')
   \<and> (createRuntime n = Inr EnrootRuntime \<longleftrightarrow> n = ''enroot'')
   \<and> (n \<noteq> ''singularity'' \<and> n \<noteq> ''enroot'' \<longrightarrow> createRuntime n = Inl ErrInvalidRuntime)
   \<and> (ContainerRuntime cfg \<noteq> ''singularity'' \<and> ContainerRuntime cfg \<noteq> ''enroot'' \<longrightarrow>
        \<not> list_ex containerLevel (trace (SubmitHandler K cfg jids))
        \<and> \<not> list_ex schedulerVisible (trace (SubmitHandler K cfg jids))
        \<and> headers (trace (SubmitHandler K cfg jids)) = [StatusInternalServerError]
        \<and> store (SubmitHandler K cfg jids) = jids
        \<and> (\<forall>body. readAll K = Inr body \<longrightarrow>
              trace (SubmitHandler K cfg jids)
                = handleError StatusInternalServerError ErrInvalidRuntime))"
proof -
  have sel: "(createRuntime n = Inr SingularityRuntime \<longleftrightarrow> n = ''singularity'')
      \<and> (createRuntime n = Inr EnrootRuntime \<longleftrightarrow> n = ''enroot'')
      \<and> (n \<noteq> ''singularity'' \<and> n \<noteq> ''enroot'' \<longrightarrow> createRuntime n = Inl ErrInvalidRuntime)"
    by (simp add: createRuntime_def)
  have hand: "\<not> list_ex containerLevel (trace (SubmitHandler K cfg jids))
        \<and> \<not> list_ex schedulerVisible (trace (SubmitHandler K cfg jids))
        \<and> headers (trace (SubmitHandler K cfg jids)) = [StatusInternalServerError]
        \<and> store (SubmitHandler K cfg jids) = jids
        \<and> (\<forall>body. readAll K = Inr body \<longrightarrow>
              trace (SubmitHandler K cfg jids)
                = handleError StatusInternalServerError ErrInvalidRuntime)"
    if bad: "ContainerRuntime cfg \<noteq> ''singularity'' \<and> ContainerRuntime cfg \<noteq> ''enroot''"
  proof -
    from bad have cr: "createRuntime (ContainerRuntime cfg) = Inl ErrInvalidRuntime"
      by (simp add: createRuntime_def)
    show ?thesis
    proof (cases "readAll K")
      case (Inl err)
      then show ?thesis by (simp add: handler_body_fails handleError_def)
    next
      case (Inr body)
      then show ?thesis by (simp add: handler_runtime_fails [OF Inr cr] handleError_def)
    qed
  qed
  from sel hand show ?thesis by blast
qed

theorem runtime_selection_witness:
  "ContainerRuntime (exConfig ''docker'') \<noteq> ''singularity''
   \<and> ContainerRuntime (exConfig ''docker'') \<noteq> ''enroot''
   \<and> createRuntime ''docker'' = Inl ErrInvalidRuntime
   \<and> createRuntime ''singularity'' = Inr SingularityRuntime
   \<and> createRuntime ''enroot'' = Inr EnrootRuntime
   \<and> trace (SubmitHandler (exCollab exPod2 ''--bind /d'') (exConfig ''docker'') Map.empty)
       = [EvLogError ErrInvalidRuntime, EvWriteHeader 500, EvWrite genericMessage]
   \<and> \<not> list_ex containerLevel
         (trace (SubmitHandler (exCollab exPod2 ''--bind /d'') (exConfig ''docker'') Map.empty))"
proof -
  have bad: "ContainerRuntime (exConfig ''docker'') \<noteq> ''singularity''
      \<and> ContainerRuntime (exConfig ''docker'') \<noteq> ''enroot''"
    by (simp add: exConfig_def)
  have body: "readAll (exCollab exPod2 ''--bind /d'') = Inr ''{}''"
    by (simp add: exCollab_def)
  from bad body
    runtime_selection [of "''docker''" "exConfig ''docker''" "exCollab exPod2 ''--bind /d''" Map.empty]
    runtime_selection [of "''singularity''" "exConfig ''docker''" "exCollab exPod2 ''--bind /d''" Map.empty]
    runtime_selection [of "''enroot''" "exConfig ''docker''" "exCollab exPod2 ''--bind /d''" Map.empty]
  show ?thesis by (simp add: handleError_def status_defs)
qed

lemma status_loop_fails:
  assumes e: "readAll K = Inr body" "createRuntime (ContainerRuntime cfg) = Inr rt"
      "jsonUnmarshal K body = Inr data"
    and c: "c \<in> set (podContainers data)"
      "prepareMounts K cfg data c (podFilesPath cfg data) = Inl err"
  shows "reportedStatus K cfg jids = [StatusGatewayTimeout]
         \<and> statusCode (SubmitHandler K cfg jids) = StatusInternalServerError"
proof -
  from c have "\<exists>c\<in>set (podContainers data). \<exists>err.
      prepareMounts K cfg data c (podFilesPath cfg data) = Inl err"
    by blast
  then obtain st where l: "loopOutcome K cfg rt data = Inl st"
    using loopOutcome_fails by blast
  from loopOutcome_Inl [OF l] obtain err' pre where
    ev: "events st = pre @ handleError StatusGatewayTimeout err' @ [EvRemoveAll (podFilesPath cfg data)]"
    and pre: "list_all containerLevel pre"
    by blast
  have "headers (events st) = [StatusGatewayTimeout]"
    by (simp add: ev headers_append headers_containerLevel [OF pre] headers_handleError)
  then show ?thesis
    by (simp add: reportedStatus_def handler_loop_fails [OF e l])
qed

lemma status_after_loop:
  assumes e: "readAll K = Inr body" "createRuntime (ContainerRuntime cfg) = Inr rt"
      "jsonUnmarshal K body = Inr data"
    and l: "loopOutcome K cfg rt data = Inr st"
  shows "scriptOutcome K cfg data st = Inl err \<Longrightarrow>
           reportedStatus K cfg jids = [] \<and> statusCode (SubmitHandler K cfg jids) = StatusOK"
    and "scriptOutcome K cfg data st = Inr path \<Longrightarrow> SLURMBatchSubmit K cfg path = Inl err \<Longrightarrow>
           reportedStatus K cfg jids = [StatusGatewayTimeout]
           \<and> statusCode (SubmitHandler K cfg jids) = StatusInternalServerError"
    and "scriptOutcome K cfg data st = Inr path \<Longrightarrow> SLURMBatchSubmit K cfg path = Inr out \<Longrightarrow>
         handleJidAndPodUid K data jids out (podFilesPath cfg data) = (Inl err, jids1) \<Longrightarrow>
           reportedStatus K cfg jids = [StatusGatewayTimeout]
           \<and> statusCode (SubmitHandler K cfg jids) = StatusInternalServerError"
    and "scriptOutcome K cfg data st = Inr path \<Longrightarrow> SLURMBatchSubmit K cfg path = Inr out \<Longrightarrow>
         handleJidAndPodUid K data jids out (podFilesPath cfg data) = (Inr jid, jids1) \<Longrightarrow>
         jsonMarshal K \<lparr>PodUID = UID data, PodJID = jid\<rparr> = Inl err \<Longrightarrow>
           reportedStatus K cfg jids = [StatusInternalServerError]
           \<and> statusCode (SubmitHandler K cfg jids) = StatusInternalServerError"
    and "scriptOutcome K cfg data st = Inr path \<Longrightarrow> SLURMBatchSubmit K cfg path = Inr out \<Longrightarrow>
         handleJidAndPodUid K data jids out (podFilesPath cfg data) = (Inr jid, jids1) \<Longrightarrow>
         jsonMarshal K \<lparr>PodUID = UID data, PodJID = jid\<rparr> = Inr bytes \<Longrightarrow>
           reportedStatus K cfg jids = [StatusOK]
           \<and> statusCode (SubmitHandler K cfg jids) = StatusOK"
proof -
  have h: "SubmitHandler K cfg jids = generateAndSubmit K cfg jids data (podFilesPath cfg data) st"
    using e l by (rule handler_loop_done)
  have ev: "headers (events st) = []"
    using loopOutcome_Inr [OF l] by (simp add: headers_containerLevel)
  show "scriptOutcome K cfg data st = Inl err \<Longrightarrow>
           reportedStatus K cfg jids = [] \<and> statusCode (SubmitHandler K cfg jids) = StatusOK"
    by (simp add: reportedStatus_def h generate_script_fails headers_append ev)
  show "scriptOutcome K cfg data st = Inr path \<Longrightarrow> SLURMBatchSubmit K cfg path = Inl err \<Longrightarrow>
           reportedStatus K cfg jids = [StatusGatewayTimeout]
           \<and> statusCode (SubmitHandler K cfg jids) = StatusInternalServerError"
    by (simp add: reportedStatus_def h generate_submit_fails headers_append ev headers_handleError)
  show "scriptOutcome K cfg data st = Inr path \<Longrightarrow> SLURMBatchSubmit K cfg path = Inr out \<Longrightarrow>
         handleJidAndPodUid K data jids out (podFilesPath cfg data) = (Inl err, jids1) \<Longrightarrow>
           reportedStatus K cfg jids = [StatusGatewayTimeout]
           \<and> statusCode (SubmitHandler K cfg jids) = StatusInternalServerError"
    by (simp add: reportedStatus_def h generate_submitted record_fails headers_append ev
          headers_handleError split: option.splits)
  show "scriptOutcome K cfg data st = Inr path \<Longrightarrow> SLURMBatchSubmit K cfg path = Inr out \<Longrightarrow>
         handleJidAndPodUid K data jids out (podFilesPath cfg data) = (Inr jid, jids1) \<Longrightarrow>
         jsonMarshal K \<lparr>PodUID = UID data, PodJID = jid\<rparr> = Inl err \<Longrightarrow>
           reportedStatus K cfg jids = [StatusInternalServerError]
           \<and> statusCode (SubmitHandler K cfg jids) = StatusInternalServerError"
    by (simp add: reportedStatus_def h generate_submitted marshal_fails headers_append ev
          headers_handleError)
  show "scriptOutcome K cfg data st = Inr path \<Longrightarrow> SLURMBatchSubmit K cfg path = Inr out \<Longrightarrow>
         handleJidAndPodUid K data jids out (podFilesPath cfg data) = (Inr jid, jids1) \<Longrightarrow>
         jsonMarshal K \<lparr>PodUID = UID data, PodJID = jid\<rparr> = Inr bytes \<Longrightarrow>
           reportedStatus K cfg jids = [StatusOK]
           \<and> statusCode (SubmitHandler K cfg jids) = StatusOK"
    by (simp add: reportedStatus_def h generate_submitted responded headers_append ev)
qed

lemma reported_body:
  "readAll K = Inl err \<longrightarrow>
      reportedStatus K cfg jids = [StatusInternalServerError]
      \<and> statusCode (SubmitHandler K cfg jids) = StatusInternalServerError"
  by (simp add: reportedStatus_def handler_body_fails headers_handleError)

lemma reported_runtime:
  "readAll K = Inr body \<and> createRuntime (ContainerRuntime cfg) = Inl err \<longrightarrow>
      reportedStatus K cfg jids = [StatusInternalServerError]
      \<and> statusCode (SubmitHandler K cfg jids) = StatusInternalServerError"
  by (simp add: reportedStatus_def handler_runtime_fails headers_handleError)

lemma reported_unmarshal:
  "readAll K = Inr body \<and> createRuntime (ContainerRuntime cfg) = Inr rt
      \<and> jsonUnmarshal K body = Inl err \<longrightarrow>
      reportedStatus K cfg jids = [StatusGatewayTimeout]
      \<and> statusCode (SubmitHandler K cfg jids) = StatusInternalServerError"
  by (simp add: reportedStatus_def handler_unmarshal_fails headers_handleError)

lemma reported_mounts:
  "readAll K = Inr body \<and> createRuntime (ContainerRuntime cfg) = Inr rt
      \<and> jsonUnmarshal K body = Inr data \<and> c \<in> set (podContainers data)
      \<and> prepareMounts K cfg data c (podFilesPath cfg data) = Inl err \<longrightarrow>
      reportedStatus K cfg jids = [StatusGatewayTimeout]
      \<and> statusCode (SubmitHandler K cfg jids) = StatusInternalServerError"
  using status_loop_fails [of K body cfg rt data c err jids] by blast

lemma reported_submit:
  "readAll K = Inr body \<and> createRuntime (ContainerRuntime cfg) = Inr rt
      \<and> jsonUnmarshal K body = Inr data \<and> loopOutcome K cfg rt data = Inr st
      \<and> scriptOutcome K cfg data st = Inr path \<and> SLURMBatchSubmit K cfg path = Inl err \<longrightarrow>
      reportedStatus K cfg jids = [StatusGatewayTimeout]
      \<and> statusCode (SubmitHandler K cfg jids) = StatusInternalServerError"
  using status_after_loop(2) [of K body cfg rt data st path err jids] by blast

lemma reported_record:
  "readAll K = Inr body \<and> createRuntime (ContainerRuntime cfg) = Inr rt
      \<and> jsonUnmarshal K body = Inr data \<and> loopOutcome K cfg rt data = Inr st
      \<and> scriptOutcome K cfg data st = Inr path \<and> SLURMBatchSubmit K cfg path = Inr out
      \<and> handleJidAndPodUid K data jids out (podFilesPath cfg data) = (Inl err, jids1) \<longrightarrow>
      reportedStatus K cfg jids = [StatusGatewayTimeout]
      \<and> statusCode (SubmitHandler K cfg jids) = StatusInternalServerError"
  using status_after_loop(3) [of K body cfg rt data st path out jids err jids1] by blast

lemma reported_marshal:
  "readAll K = Inr body \<and> createRuntime (ContainerRuntime cfg) = Inr rt
      \<and> jsonUnmarshal K body = Inr data \<and> loopOutcome K cfg rt data = Inr st
      \<and> scriptOutcome K cfg data st = Inr path \<and> SLURMBatchSubmit K cfg path = Inr out
      \<and> handleJidAndPodUid K data jids out (podFilesPath cfg data) = (Inr jid, jids1)
      \<and> jsonMarshal K \<lparr>PodUID = UID data, PodJID = jid\<rparr> = Inl err \<longrightarrow>
      reportedStatus K cfg jids = [StatusInternalServerError]
      \<and> statusCode (SubmitHandler K cfg jids) = StatusInternalServerError"
  using status_after_loop(4) [of K body cfg rt data st path out jids jid jids1 err] by blast

lemma reported_script:
  "readAll K = Inr body \<and> createRuntime (ContainerRuntime cfg) = Inr rt
      \<and> jsonUnmarshal K body = Inr data \<and> loopOutcome K cfg rt data = Inr st
      \<and> scriptOutcome K cfg data st = Inl err \<longrightarrow>
      reportedStatus K cfg jids = []
      \<and> statusCode (SubmitHandler K cfg jids) = StatusOK"
  using status_after_loop(1) [of K body cfg rt data st err jids] by blast

lemma reported_success:
  "readAll K = Inr body \<and> createRuntime (ContainerRuntime cfg) = Inr rt
      \<and> jsonUnmarshal K body = Inr data \<and> loopOutcome K cfg rt data = Inr st
      \<and> scriptOutcome K cfg data st = Inr path \<and> SLURMBatchSubmit K cfg path = Inr out
      \<and> handleJidAndPodUid K data jids out (podFilesPath cfg data) = (Inr jid, jids1)
      \<and> jsonMarshal K \<lparr>PodUID = UID data, PodJID = jid\<rparr> = Inr bytes \<longrightarrow>
      reportedStatus K cfg jids = [StatusOK]
      \<and> statusCode (SubmitHandler K cfg jids) = StatusOK"
  using status_after_loop(5) [of K body cfg rt data st path out jids jid jids1 bytes] by blast

lemma loopOutcome_succeeds:
  assumes "\<forall>c\<in>set (podContainers data). \<exists>m. prepareMounts K cfg data c (podFilesPath cfg data) = Inr m"
  shows "\<exists>st. loopOutcome K cfg rt data = Inr st"
  unfolding loopOutcome_def using assms by (rule loop_succeeds)

lemmas ex_collab_defs =
  exCollab_def exFailMounts_def exFailBody_def exFailUnmarshal_def exFailScript_def
  exFailSubmit_def exFailRecord_def exFailMarshal_def

lemmas ex_pod_defs =
  exPod2_def exPod_def exContainer_def exConfig_def podContainers_def podFilesPath_def

text \<open>
  Claim C10. When the pod JSON cannot be decoded, when mount preparation fails, when the
  SLURM submission fails or when the job identifier cannot be recorded, the status the
  handler reports is 504 (Gateway Timeout) although its variable \<open>statusCode\<close> holds 500;
  a failed body read, an unknown runtime and a failed marshalling of the answer are
  reported as 500. Of the two remaining ends of a call, a failed script generation
  reports no status at all and a success reports 200, so 500 is reported in those three
  cases only.
\<close>

theorem reported_status:
  "(readAll K = Inl err \<longrightarrow>
      reportedStatus K cfg jids = [StatusInternalServerError]
      \<and> statusCode (SubmitHandler K cfg jids) = StatusInternalServerError)
   \<and> (readAll K = Inr body \<and> createRuntime (ContainerRuntime cfg) = Inl err \<longrightarrow>
      reportedStatus K cfg jids = [StatusInternalServerError]
      \<and> statusCode (SubmitHandler K cfg jids) = StatusInternalServerError)
   \<and> (readAll K = Inr body \<and> createRuntime (ContainerRuntime cfg) = Inr rt
      \<and> jsonUnmarshal K body = Inl err \<longrightarrow>
      reportedStatus K cfg jids = [StatusGatewayTimeout]
      \<and> statusCode (SubmitHandler K cfg jids) = StatusInternalServerError)
   \<and> (readAll K = Inr body \<and> createRuntime (ContainerRuntime cfg) = Inr rt
      \<and> jsonUnmarshal K body = Inr data \<and> c \<in> set (podContainers data)
      \<and> prepareMounts K cfg data c (podFilesPath cfg data) = Inl err \<longrightarrow>
      reportedStatus K cfg jids = [StatusGatewayTimeout]
      \<and> statusCode (SubmitHandler K cfg jids) = StatusInternalServerError)
   \<and> (readAll K = Inr body \<and> createRuntime (ContainerRuntime cfg) = Inr rt
      \<and> jsonUnmarshal K body = Inr data \<and> loopOutcome K cfg rt data = Inr st
      \<and> scriptOutcome K cfg data st = Inr path \<and> SLURMBatchSubmit K cfg path = Inl err \<longrightarrow>
      reportedStatus K cfg jids = [StatusGatewayTimeout]
      \<and> statusCode (SubmitHandler K cfg jids) = StatusInternalServerError)
   \<and> (readAll K = Inr body \<and> createRuntime (ContainerRuntime cfg) = Inr rt
      \<and> jsonUnmarshal K body = Inr data \<and> loopOutcome K cfg rt data = Inr st
      \<and> scriptOutcome K cfg data st = Inr path \<and> SLURMBatchSubmit K cfg path = Inr out
      \<and> handleJidAndPodUid K data jids out (podFilesPath cfg data) = (Inl err, jids1) \<longrightarrow>
      reportedStatus K cfg jids = [StatusGatewayTimeout]
      \<and> statusCode (SubmitHandler K cfg jids) = StatusInternalServerError)
   \<and> (readAll K = Inr body \<and> createRuntime (ContainerRuntime cfg) = Inr rt
      \<and> jsonUnmarshal K body = Inr data \<and> loopOutcome K cfg rt data = Inr st
      \<and> scriptOutcome K cfg data st = Inr path \<and> SLURMBatchSubmit K cfg path = Inr out
      \<and> handleJidAndPodUid K data jids out (podFilesPath cfg data) = (Inr jid, jids1)
      \<and> jsonMarshal K \<lparr>PodUID = UID data, PodJID = jid\<rparr> = Inl err \<longrightarrow>
      reportedStatus K cfg jids = [StatusInternalServerError]
      \<and> statusCode (SubmitHandler K cfg jids) = StatusInternalServerError)
   \<and> (readAll K = Inr body \<and> createRuntime (ContainerRuntime cfg) = Inr rt
      \<and> jsonUnmarshal K body = Inr data \<and> loopOutcome K cfg rt data = Inr st
      \<and> scriptOutcome K cfg data st = Inl err \<longrightarrow>
      reportedStatus K cfg jids = []
      \<and> statusCode (SubmitHandler K cfg jids) = StatusOK)
   \<and> (readAll K = Inr body \<and> createRuntime (ContainerRuntime cfg) = Inr rt
      \<and> jsonUnmarshal K body = Inr data \<and> loopOutcome K cfg rt data = Inr st
      \<and> scriptOutcome K cfg data st = Inr path \<and> SLURMBatchSubmit K cfg path = Inr out
      \<and> handleJidAndPodUid K data jids out (podFilesPath cfg data) = (Inr jid, jids1)
      \<and> jsonMarshal K \<lparr>PodUID = UID data, PodJID = jid\<rparr> = Inr bytes \<longrightarrow>
      reportedStatus K cfg jids = [StatusOK]
      \<and> statusCode (SubmitHandler K cfg jids) = StatusOK)"
  by (intro conjI) (rule reported_body, rule reported_runtime, rule reported_unmarshal, rule reported_mounts, rule reported_submit, rule reported_record, rule reported_marshal, rule reported_script, rule reported_success)

theorem reported_status_witness:
  "reportedStatus (exFailBody (exCollab exPod2 ''--bind /d'')) (exConfig ''singularity'') Map.empty = [500]
   \<and> statusCode (SubmitHandler (exFailBody (exCollab exPod2 ''--bind /d'')) (exConfig ''singularity'') Map.empty) = 500
   \<and> reportedStatus (exCollab exPod2 ''--bind /d'') (exConfig ''docker'') Map.empty = [500]
   \<and> statusCode (SubmitHandler (exCollab exPod2 ''--bind /d'') (exConfig ''docker'') Map.empty) = 500
   \<and> reportedStatus (exFailUnmarshal (exCollab exPod2 ''--bind /d'')) (exConfig ''singularity'') Map.empty = [504]
   \<and> statusCode (SubmitHandler (exFailUnmarshal (exCollab exPod2 ''--bind /d'')) (exConfig ''singularity'') Map.empty) = 500
   \<and> reportedStatus (exFailMounts (exCollab exPod2 ''--bind /d'') ''b'') (exConfig ''singularity'') Map.empty = [504]
   \<and> statusCode (SubmitHandler (exFailMounts (exCollab exPod2 ''--bind /d'') ''b'') (exConfig ''singularity'') Map.empty) = 500
   \<and> reportedStatus (exFailSubmit (exCollab exPod2 ''--bind /d'')) (exConfig ''singularity'') Map.empty = [504]
   \<and> statusCode (SubmitHandler (exFailSubmit (exCollab exPod2 ''--bind /d'')) (exConfig ''singularity'') Map.empty) = 500
   \<and> reportedStatus (exFailRecord (exCollab exPod2 ''--bind /d'')) (exConfig ''singularity'') Map.empty = [504]
   \<and> statusCode (SubmitHandler (exFailRecord (exCollab exPod2 ''--bind /d'')) (exConfig ''singularity'') Map.empty) = 500
   \<and> reportedStatus (exFailMarshal (exCollab exPod2 ''--bind /d'')) (exConfig ''singularity'') Map.empty = [500]
   \<and> statusCode (SubmitHandler (exFailMarshal (exCollab exPod2 ''--bind /d'')) (exConfig ''singularity'') Map.empty) = 500
   \<and> reportedStatus (exFailScript (exCollab exPod2 ''--bind /d'')) (exConfig ''singularity'') Map.empty = []
   \<and> statusCode (SubmitHandler (exFailScript (exCollab exPod2 ''--bind /d'')) (exConfig ''singularity'') Map.empty) = 200
   \<and> reportedStatus (exCollab exPod2 ''--bind /d'') (exConfig ''singularity'') Map.empty = [200]
   \<and> statusCode (SubmitHandler (exCollab exPod2 ''--bind /d'') (exConfig ''singularity'') Map.empty) = 200"
proof -
  let ?cfg = "exConfig ''singularity''"
  let ?K0 = "exCollab exPod2 ''--bind /d''"
  have rt: "createRuntime (ContainerRuntime ?cfg) = Inr SingularityRuntime"
    by (simp add: createRuntime_def exConfig_def)
  have p_body: "reportedStatus (exFailBody (exCollab exPod2 ''--bind /d'')) (exConfig ''singularity'') Map.empty = [500]
   \<and> statusCode (SubmitHandler (exFailBody (exCollab exPod2 ''--bind /d'')) (exConfig ''singularity'') Map.empty) = 500"
    using reported_status [of "exFailBody ?K0" "ErrCollaborator ''read failed''" ?cfg Map.empty]
    by (simp add: exFailBody_def status_defs)
  have p_runtime: "reportedStatus (exCollab exPod2 ''--bind /d'') (exConfig ''docker'') Map.empty = [500]
   \<and> statusCode (SubmitHandler (exCollab exPod2 ''--bind /d'') (exConfig ''docker'') Map.empty) = 500"
    using reported_status [of ?K0 ErrInvalidRuntime "exConfig ''docker''" Map.empty "''{}''"]
    by (simp add: exCollab_def exConfig_def createRuntime_def status_defs)
  have p_unmarshal: "reportedStatus (exFailUnmarshal (exCollab exPod2 ''--bind /d'')) (exConfig ''singularity'') Map.empty = [504]
   \<and> statusCode (SubmitHandler (exFailUnmarshal (exCollab exPod2 ''--bind /d'')) (exConfig ''singularity'') Map.empty) = 500"
    using rt reported_status [of "exFailUnmarshal ?K0" "ErrCollaborator ''bad json''" ?cfg Map.empty
        "''{}''" SingularityRuntime]
    by (simp add: ex_collab_defs status_defs)
  have p_mounts: "reportedStatus (exFailMounts (exCollab exPod2 ''--bind /d'') ''b'') (exConfig ''singularity'') Map.empty = [504]
   \<and> statusCode (SubmitHandler (exFailMounts (exCollab exPod2 ''--bind /d'') ''b'') (exConfig ''singularity'') Map.empty) = 500"
    using rt reported_status [of "exFailMounts ?K0 ''b''" "ErrCollaborator ''mount failed''" ?cfg
        Map.empty "''{}''" SingularityRuntime exPod2 "exContainer ''b'' 1 0"]
    by (simp add: ex_collab_defs ex_pod_defs status_defs)
  have p_submit: "reportedStatus (exFailSubmit (exCollab exPod2 ''--bind /d'')) (exConfig ''singularity'') Map.empty = [504]
   \<and> statusCode (SubmitHandler (exFailSubmit (exCollab exPod2 ''--bind /d'')) (exConfig ''singularity'') Map.empty) = 500"
  proof -
    let ?K = "exFailSubmit ?K0"
    have "\<forall>c\<in>set (podContainers exPod2). \<exists>m.
        prepareMounts ?K ?cfg exPod2 c (podFilesPath ?cfg exPod2) = Inr m"
      by (simp add: ex_collab_defs)
    then obtain st where l: "loopOutcome ?K ?cfg SingularityRuntime exPod2 = Inr st"
      using loopOutcome_succeeds by blast
    have s: "scriptOutcome ?K ?cfg exPod2 st = Inr ''/tmp/ns-uid-1/job.sh''"
      by (simp add: scriptOutcome_def ex_collab_defs ex_pod_defs)
    show ?thesis
      using rt l s reported_status [of ?K "ErrCollaborator ''sbatch failed''" ?cfg Map.empty "''{}''" SingularityRuntime exPod2 _ st
          "''/tmp/ns-uid-1/job.sh''"]
      by (simp add: ex_collab_defs ex_pod_defs status_defs)
  qed
  have p_record: "reportedStatus (exFailRecord (exCollab exPod2 ''--bind /d'')) (exConfig ''singularity'') Map.empty = [504]
   \<and> statusCode (SubmitHandler (exFailRecord (exCollab exPod2 ''--bind /d'')) (exConfig ''singularity'') Map.empty) = 500"
  proof -
    let ?K = "exFailRecord ?K0"
    have "\<forall>c\<in>set (podContainers exPod2). \<exists>m.
        prepareMounts ?K ?cfg exPod2 c (podFilesPath ?cfg exPod2) = Inr m"
      by (simp add: ex_collab_defs)
    then obtain st where l: "loopOutcome ?K ?cfg SingularityRuntime exPod2 = Inr st"
      using loopOutcome_succeeds by blast
    have s: "scriptOutcome ?K ?cfg exPod2 st = Inr ''/tmp/ns-uid-1/job.sh''"
      by (simp add: scriptOutcome_def ex_collab_defs ex_pod_defs)
    show ?thesis
      using rt l s reported_status [of ?K "ErrCollaborator ''no job id''" ?cfg Map.empty "''{}''" SingularityRuntime exPod2 _ st
          "''/tmp/ns-uid-1/job.sh''" "''Submitted batch job 7''" Map.empty]
      by (simp add: ex_collab_defs ex_pod_defs status_defs)
  qed
  have p_marshal: "reportedStatus (exFailMarshal (exCollab exPod2 ''--bind /d'')) (exConfig ''singularity'') Map.empty = [500]
   \<and> statusCode (SubmitHandler (exFailMarshal (exCollab exPod2 ''--bind /d'')) (exConfig ''singularity'') Map.empty) = 500"
  proof -
    let ?K = "exFailMarshal ?K0"
    have "\<forall>c\<in>set (podContainers exPod2). \<exists>m.
        prepareMounts ?K ?cfg exPod2 c (podFilesPath ?cfg exPod2) = Inr m"
      by (simp add: ex_collab_defs)
    then obtain st where l: "loopOutcome ?K ?cfg SingularityRuntime exPod2 = Inr st"
      using loopOutcome_succeeds by blast
    have s: "scriptOutcome ?K ?cfg exPod2 st = Inr ''/tmp/ns-uid-1/job.sh''"
      by (simp add: scriptOutcome_def ex_collab_defs ex_pod_defs)
    show ?thesis
      using rt l s reported_status [of ?K "ErrCollaborator ''marshal failed''" ?cfg Map.empty "''{}''" SingularityRuntime exPod2 _ st
          "''/tmp/ns-uid-1/job.sh''" "''Submitted batch job 7''" "Map.empty(''uid-1'' \<mapsto> ''7'')" "''7''"]
      by (simp add: ex_collab_defs ex_pod_defs status_defs)
  qed
  have p_script: "reportedStatus (exFailScript (exCollab exPod2 ''--bind /d'')) (exConfig ''singularity'') Map.empty = []
   \<and> statusCode (SubmitHandler (exFailScript (exCollab exPod2 ''--bind /d'')) (exConfig ''singularity'') Map.empty) = 200"
  proof -
    let ?K = "exFailScript ?K0"
    have "\<forall>c\<in>set (podContainers exPod2). \<exists>m.
        prepareMounts ?K ?cfg exPod2 c (podFilesPath ?cfg exPod2) = Inr m"
      by (simp add: ex_collab_defs)
    then obtain st where l: "loopOutcome ?K ?cfg SingularityRuntime exPod2 = Inr st"
      using loopOutcome_succeeds by blast
    have s: "scriptOutcome ?K ?cfg exPod2 st = Inl (ErrCollaborator ''disk full'')"
      by (simp add: scriptOutcome_def ex_collab_defs ex_pod_defs)
    show ?thesis
      using rt l s reported_status [of ?K "ErrCollaborator ''disk full''" ?cfg Map.empty "''{}''" SingularityRuntime exPod2 _ st
          ]
      by (simp add: ex_collab_defs ex_pod_defs status_defs)
  qed
  have p_success: "reportedStatus (exCollab exPod2 ''--bind /d'') (exConfig ''singularity'') Map.empty = [200]
   \<and> statusCode (SubmitHandler (exCollab exPod2 ''--bind /d'') (exConfig ''singularity'') Map.empty) = 200"
  proof -
    let ?K = "?K0"
    have "\<forall>c\<in>set (podContainers exPod2). \<exists>m.
        prepareMounts ?K ?cfg exPod2 c (podFilesPath ?cfg exPod2) = Inr m"
      by (simp add: ex_collab_defs)
    then obtain st where l: "loopOutcome ?K ?cfg SingularityRuntime exPod2 = Inr st"
      using loopOutcome_succeeds by blast
    have s: "scriptOutcome ?K ?cfg exPod2 st = Inr ''/tmp/ns-uid-1/job.sh''"
      by (simp add: scriptOutcome_def ex_collab_defs ex_pod_defs)
    show ?thesis
      using rt l s reported_status [of ?K _ ?cfg Map.empty "''{}''" SingularityRuntime exPod2 _ st
          "''/tmp/ns-uid-1/job.sh''" "''Submitted batch job 7''" "Map.empty(''uid-1'' \<mapsto> ''7'')" "''7''" "''uid-1 7''"]
      by (simp add: ex_collab_defs ex_pod_defs status_defs)
  qed
  from p_body p_runtime p_unmarshal p_mounts p_submit p_record p_marshal p_script p_success
  show ?thesis by (intro conjI) (erule conjunct1 conjunct2)+
qed

text \<open>
  Claim C1 asks that a pod none of whose containers declares a limit ends the loop with the
  ceilings 1 CPU and 1,048,576 bytes. The loop stores these defaults in \<open>resourceLimits\<close>
  (lines 127 and 139) and announces them in its warnings, but lines 149 and 150 then
  overwrite both fields with the running limits, which are still 0. Evaluated on a pod
  with one container that declares nothing: both ceilings are 0, both default flags are
  set, the two warnings promise 1 CPU and 1MB, and the script generator is handed the
  limits 0 and 0.
\<close>

theorem default_floor_overwritten:
  "resourceLimits (finalLimits [exContainer ''a'' 0 0]) = \<lparr>CPU = 0, Memory = 0\<rparr>
   \<and> isDefaultCPU (finalLimits [exContainer ''a'' 0 0])
   \<and> isDefaultRam (finalLimits [exContainer ''a'' 0 0])
   \<and> warnings [exContainer ''a'' 0 0]
     = [EvWarning ''Max CPU resource not set for a. Only 1 CPU will be used'',
        EvWarning ''Max Memory resource not set for a. Only 1MB will be used'']
   \<and> trace (SubmitHandler (exCollab (exPod [exContainer ''a'' 0 0]) ''--bind /d'')
              (exConfig ''singularity'') Map.empty) ! 6
     = EvProduceSLURMScript
         [\<lparr>containerName = ''a'', isInitContainer = False,
           runtimeCommand = [''run'', ''--env'', ''A=1'', ''--bind /d'', ''img.sif''],
           containerCommand = [''sleep''], containerArgs = [''10''],
           containerImage = ''img.sif''\<rparr>]
         \<lparr>CPU = 0, Memory = 0\<rparr> True True"
proof -
  have "trace (SubmitHandler (exCollab (exPod [exContainer ''a'' 0 0]) ''--bind /d'')
              (exConfig ''singularity'') Map.empty) ! 6
     = EvProduceSLURMScript
         [\<lparr>containerName = ''a'', isInitContainer = False,
           runtimeCommand = [''run'', ''--env'', ''A=1'', ''--bind /d'', ''img.sif''],
           containerCommand = [''sleep''], containerArgs = [''10''],
           containerImage = ''img.sif''\<rparr>]
         \<lparr>CPU = 0, Memory = 0\<rparr> True True"
    by (simp add: handler_eval)
  then show ?thesis by (simp add: agg_eval)
qed

text \<open>
  Claim C2 asks that every call ends with one of two responses written: the success status
  with the serialized pair, or an error status with the generic message, a failed script
  generation included. Every other failure path calls \<open>handleError\<close>; the path of a
  failed script generation (lines 203 to 207) logs the error, removes the working
  directory and returns without writing anything. Evaluated on a pod whose script
  generation fails: nothing is written to the response, \<open>statusCode\<close> is still 200, and
  the last two actions are the error log and the removal of the directory.
\<close>

theorem script_failure_no_response:
  "response (SubmitHandler (exFailScript (exCollab exPod2 ''--bind /d''))
               (exConfig ''singularity'') Map.empty) = []
   \<and> statusCode (SubmitHandler (exFailScript (exCollab exPod2 ''--bind /d''))
               (exConfig ''singularity'') Map.empty) = 200
   \<and> last (butlast (trace (SubmitHandler (exFailScript (exCollab exPod2 ''--bind /d''))
               (exConfig ''singularity'') Map.empty)))
       = EvLogError (ErrCollaborator ''disk full'')
   \<and> last (trace (SubmitHandler (exFailScript (exCollab exPod2 ''--bind /d''))
               (exConfig ''singularity'') Map.empty))
       = EvRemoveAll ''/tmp/ns-uid-1''"
  by (simp add: handler_eval)

lemma containerLevel_not_delete: "containerLevel e \<Longrightarrow> \<not> isDeleteContainer e"
  by (cases e) simp_all

lemma takeWhile_until_delete:
  assumes "\<forall>x\<in>set pre. \<not> isDeleteContainer x"
  shows "takeWhile (\<lambda>e. \<not> isDeleteContainer e) (pre @ EvDeleteContainer u p # post) = pre"
    and "dropWhile (\<lambda>e. \<not> isDeleteContainer e) (pre @ EvDeleteContainer u p # post)
           = EvDeleteContainer u p # post"
proof -
  from assms have a: "\<And>x. x \<in> set pre \<Longrightarrow> \<not> isDeleteContainer x" by blast
  show "takeWhile (\<lambda>e. \<not> isDeleteContainer e) (pre @ EvDeleteContainer u p # post) = pre"
    using takeWhile_append2 [of pre "\<lambda>e. \<not> isDeleteContainer e" "EvDeleteContainer u p # post", OF a]
    by simp
  show "dropWhile (\<lambda>e. \<not> isDeleteContainer e) (pre @ EvDeleteContainer u p # post)
           = EvDeleteContainer u p # post"
    using dropWhile_append2 [of pre "\<lambda>e. \<not> isDeleteContainer e" "EvDeleteContainer u p # post", OF a]
    by simp
qed

text \<open>
  Claim C3, as amended. If recording the job identifier fails after the submission
  succeeded, the handler writes the failure response (status 504 with the generic
  message), removes the working directory and then calls the cancellation compensator,
  exactly once and with the identifier and the working directory of the pod: the removal
  is the action right before the cancellation, and the handler removes nothing after it.
  The job-tracking store afterwards is the store the compensator returns, so it has no
  entry for the pod whenever the compensator purged that entry.
\<close>

theorem record_failure_compensation:
  assumes "readAll K = Inr body"
    and "createRuntime (ContainerRuntime cfg) = Inr rt"
    and "jsonUnmarshal K body = Inr data"
    and "loopOutcome K cfg rt data = Inr st"
    and "scriptOutcome K cfg data st = Inr path"
    and "SLURMBatchSubmit K cfg path = Inr out"
    and "handleJidAndPodUid K data jids out (podFilesPath cfg data) = (Inl err, jids1)"
  shows "filter isDeleteContainer (trace (SubmitHandler K cfg jids))
           = [EvDeleteContainer (UID data) (podFilesPath cfg data)]
       \<and> last (takeWhile (\<lambda>e. \<not> isDeleteContainer e) (trace (SubmitHandler K cfg jids)))
           = EvRemoveAll (podFilesPath cfg data)
       \<and> EvRemoveAll (podFilesPath cfg data)
           \<notin> set (dropWhile (\<lambda>e. \<not> isDeleteContainer e) (trace (SubmitHandler K cfg jids)))
       \<and> response (SubmitHandler K cfg jids)
           = [EvWriteHeader StatusGatewayTimeout, EvWrite genericMessage]
       \<and> store (SubmitHandler K cfg jids)
           = snd (deleteContainer K cfg (UID data) jids1 (podFilesPath cfg data))
       \<and> (snd (deleteContainer K cfg (UID data) jids1 (podFilesPath cfg data)) (UID data) = None
            \<longrightarrow> store (SubmitHandler K cfg jids) (UID data) = None)"
proof -
  let ?p = "podFilesPath cfg data"
  let ?pre = "events st
      @ [EvProduceSLURMScript (runtime_command_pod st) (resourceLimits (agg st))
           (isDefaultCPU (agg st)) (isDefaultRam (agg st)),
         EvSLURMBatchSubmit path, EvHandleJidAndPodUid (UID data) out]
      @ handleError StatusGatewayTimeout err @ [EvRemoveAll ?p]"
  let ?post = "case fst (deleteContainer K cfg (UID data) jids1 ?p) of
                 Some err' \<Rightarrow> [EvLogError err'] | None \<Rightarrow> []"
  have h: "SubmitHandler K cfg jids =
      \<lparr>trace = ?pre @ EvDeleteContainer (UID data) ?p # ?post,
       store = snd (deleteContainer K cfg (UID data) jids1 ?p),
       statusCode = StatusInternalServerError\<rparr>"
    using assms
    by (simp add: handler_loop_done [OF assms(1-4)] generate_submitted [OF assms(5,6)]
          record_fails [OF assms(7)])
  have cl: "list_all containerLevel (events st)"
    using loopOutcome_Inr [OF assms(4)] by blast
  have nd: "\<forall>x\<in>set ?pre. \<not> isDeleteContainer x"
    using cl by (auto simp: list_all_iff containerLevel_not_delete handleError_def)
  have post: "filter isDeleteContainer ?post = []" "filter responseWrite ?post = []"
      "EvRemoveAll ?p \<notin> set ?post"
    by (simp_all split: option.splits)
  have f: "filter isDeleteContainer ?pre = []"
    using nd by (simp add: filter_empty_conv)
  have t: "trace (SubmitHandler K cfg jids) = ?pre @ EvDeleteContainer (UID data) ?p # ?post"
    by (simp add: h)
  have c1: "filter isDeleteContainer (trace (SubmitHandler K cfg jids))
              = [EvDeleteContainer (UID data) ?p]"
    unfolding t using f post(1) by simp
  have c2: "last (takeWhile (\<lambda>e. \<not> isDeleteContainer e) (trace (SubmitHandler K cfg jids)))
              = EvRemoveAll ?p"
    unfolding t takeWhile_until_delete(1) [OF nd] by simp
  have c3: "EvRemoveAll ?p
              \<notin> set (dropWhile (\<lambda>e. \<not> isDeleteContainer e) (trace (SubmitHandler K cfg jids)))"
    unfolding t takeWhile_until_delete(2) [OF nd] using post(3) by simp
  have c4: "response (SubmitHandler K cfg jids)
              = [EvWriteHeader StatusGatewayTimeout, EvWrite genericMessage]"
    unfolding response_def t
    using response_containerLevel [OF cl] post(2) by (simp add: handleError_def)
  have c5: "store (SubmitHandler K cfg jids) = snd (deleteContainer K cfg (UID data) jids1 ?p)"
    by (simp add: h)
  from c1 c2 c3 c4 c5 show ?thesis by simp
qed

theorem record_failure_compensation_witness:
  "filter isDeleteContainer
     (trace (SubmitHandler (exFailRecord (exCollab exPod2 ''--bind /d'')) (exConfig ''singularity'')
               (Map.empty(''uid-1'' \<mapsto> ''5''))))
     = [EvDeleteContainer ''uid-1'' ''/tmp/ns-uid-1'']
   \<and> last (takeWhile (\<lambda>e. \<not> isDeleteContainer e)
       (trace (SubmitHandler (exFailRecord (exCollab exPod2 ''--bind /d'')) (exConfig ''singularity'')
                 (Map.empty(''uid-1'' \<mapsto> ''5'')))))
     = EvRemoveAll ''/tmp/ns-uid-1''
   \<and> response (SubmitHandler (exFailRecord (exCollab exPod2 ''--bind /d''))
                 (exConfig ''singularity'') (Map.empty(''uid-1'' \<mapsto> ''5'')))
     = [EvWriteHeader 504, EvWrite genericMessage]
   \<and> store (SubmitHandler (exFailRecord (exCollab exPod2 ''--bind /d''))
              (exConfig ''singularity'') (Map.empty(''uid-1'' \<mapsto> ''5''))) ''uid-1'' = None"
proof -
  let ?cfg = "exConfig ''singularity''"
  let ?K = "exFailRecord (exCollab exPod2 ''--bind /d'')"
  let ?J = "Map.empty(''uid-1'' \<mapsto> ''5'')"
  have rt: "createRuntime (ContainerRuntime ?cfg) = Inr SingularityRuntime"
    by (simp add: createRuntime_def exConfig_def)
  have b: "readAll ?K = Inr ''{}''" and u: "jsonUnmarshal ?K ''{}'' = Inr exPod2"
    by (simp_all add: ex_collab_defs)
  have "\<forall>c\<in>set (podContainers exPod2). \<exists>m.
      prepareMounts ?K ?cfg exPod2 c (podFilesPath ?cfg exPod2) = Inr m"
    by (simp add: ex_collab_defs)
  then obtain st where l: "loopOutcome ?K ?cfg SingularityRuntime exPod2 = Inr st"
    using loopOutcome_succeeds by blast
  have s: "scriptOutcome ?K ?cfg exPod2 st = Inr ''/tmp/ns-uid-1/job.sh''"
    by (simp add: scriptOutcome_def ex_collab_defs ex_pod_defs)
  have sb: "SLURMBatchSubmit ?K ?cfg ''/tmp/ns-uid-1/job.sh'' = Inr ''Submitted batch job 7''"
    by (simp add: ex_collab_defs)
  have r: "handleJidAndPodUid ?K exPod2 ?J ''Submitted batch job 7'' (podFilesPath ?cfg exPod2)
             = (Inl (ErrCollaborator ''no job id''), ?J)"
    by (simp add: ex_collab_defs)
  have p: "podFilesPath ?cfg exPod2 = ''/tmp/ns-uid-1''" and i: "UID exPod2 = ''uid-1''"
    by (simp_all add: ex_pod_defs)
  have d: "snd (deleteContainer ?K ?cfg ''uid-1'' ?J ''/tmp/ns-uid-1'') ''uid-1'' = None"
    by (simp add: ex_collab_defs)
  from record_failure_compensation [OF b rt u l s sb r] d
  show ?thesis unfolding p i by (simp add: status_defs)
qed

text \<open>
  The order the claim states, cancellation before removal, is not the order of the code:
  the cancellation is the last action of the call and the removal is the one before it.
\<close>

theorem cancellation_after_removal_counterexample:
  "last (trace (SubmitHandler (exFailRecord (exCollab exPod2 ''--bind /d''))
                  (exConfig ''singularity'') Map.empty))
     = EvDeleteContainer ''uid-1'' ''/tmp/ns-uid-1''
   \<and> last (butlast (trace (SubmitHandler (exFailRecord (exCollab exPod2 ''--bind /d''))
                  (exConfig ''singularity'') Map.empty)))
     = EvRemoveAll ''/tmp/ns-uid-1''"
  by (simp add: handler_eval)

text \<open>
  Claim C9, as amended. For the enroot runtime the command assembled for a container is
  the runtime prefix, the environment tokens, the mount fragment after one left-to-right
  pass that removes the non-overlapping occurrences of ":ro", and the container name
  followed by the pod identifier. The fragment so appended contains no ":ro" whenever the
  raw fragment contains neither "::ro" nor ":r:ro", the two ways in which removing a
  marker joins its neighbours into a new one.
\<close>

theorem enroot_mount_fragment:
  assumes "ContainerRuntime cfg = ''enroot''"
    and "prepareMounts K cfg data c path = Inr mounts"
  shows "(\<exists>st'. processContainer K cfg rt data path i c st = Inr st'
            \<and> runtimeCommand (last (runtime_command_pod st'))
                = prepareCommand K rt cfg c data @ prepareEnvs K cfg data c
                    @ [stripRO mounts, Name c @ UID data])
       \<and> (\<not> contains mounts ''::ro'' \<and> \<not> contains mounts '':r:ro''
            \<longrightarrow> \<not> contains (stripRO mounts) '':ro'')"
proof -
  have "assembleCommand cfg data c (prepareCommand K rt cfg c data) (prepareEnvs K cfg data c)
          mounts (prepareImage K cfg data (Image c))
        = prepareCommand K rt cfg c data @ prepareEnvs K cfg data c
            @ [stripRO mounts, Name c @ UID data]"
    using assms(1) by (simp add: assembleCommand_def stripRO_def Let_def)
  then have "\<exists>st'. processContainer K cfg rt data path i c st = Inr st'
            \<and> runtimeCommand (last (runtime_command_pod st'))
                = prepareCommand K rt cfg c data @ prepareEnvs K cfg data c
                    @ [stripRO mounts, Name c @ UID data]"
    by (simp add: processContainer_Inr_explicit [OF assms(2)])
  then show ?thesis using stripRO_no_marker [of mounts] by blast
qed

theorem enroot_mount_fragment_witness:
  "ContainerRuntime (exConfig ''enroot'') = ''enroot''
   \<and> prepareMounts (exCollab exPod2 ''--bind /a:/b:ro --bind /c:/d:ro'') (exConfig ''enroot'')
        exPod2 (exContainer ''a'' 0 0) ''/tmp/ns-uid-1''
       = Inr ''--bind /a:/b:ro --bind /c:/d:ro''
   \<and> \<not> contains ''--bind /a:/b:ro --bind /c:/d:ro'' ''::ro''
   \<and> \<not> contains ''--bind /a:/b:ro --bind /c:/d:ro'' '':r:ro''
   \<and> stripRO ''--bind /a:/b:ro --bind /c:/d:ro'' = ''--bind /a:/b --bind /c:/d''
   \<and> \<not> contains (stripRO ''--bind /a:/b:ro --bind /c:/d:ro'') '':ro''
   \<and> (\<exists>st'. processContainer (exCollab exPod2 ''--bind /a:/b:ro --bind /c:/d:ro'')
               (exConfig ''enroot'') EnrootRuntime exPod2 ''/tmp/ns-uid-1'' 0
               (exContainer ''a'' 0 0) initLoopState = Inr st'
            \<and> runtimeCommand (last (runtime_command_pod st'))
                = [''run'', ''--env'', ''A=1'', ''--bind /a:/b --bind /c:/d'', ''auid-1''])"
proof -
  let ?m = "''--bind /a:/b:ro --bind /c:/d:ro''"
  have e: "ContainerRuntime (exConfig ''enroot'') = ''enroot''"
    by (simp add: exConfig_def)
  have p: "prepareMounts (exCollab exPod2 ?m) (exConfig ''enroot'') exPod2 (exContainer ''a'' 0 0)
             ''/tmp/ns-uid-1'' = Inr ?m"
    by (simp add: exCollab_def)
  have n1: "\<not> contains ?m ''::ro''" and n2: "\<not> contains ?m '':r:ro''"
    by simp_all
  have s: "stripRO ?m = ''--bind /a:/b --bind /c:/d''"
    by (simp add: stripRO_def ReplaceAll_def)
  from enroot_mount_fragment [OF e p, of EnrootRuntime 0 initLoopState] n1 n2 e p s
  show ?thesis by (simp add: exCollab_def exPod2_def exPod_def exContainer_def)
qed

text \<open>
  Without that condition a marker can survive the pass: from "::roro" the pass removes the
  inner ":ro" and leaves ":ro".
\<close>

theorem enroot_marker_survives_counterexample:
  "assembleCommand (exConfig ''enroot'') exPod2 (exContainer ''a'' 0 0) [''run''] [''--env'', ''A=1'']
     ''--bind /d::roro'' ''img.sif''
     = [''run'', ''--env'', ''A=1'', ''--bind /d:ro'', ''auid-1'']
   \<and> contains ''--bind /d::roro'' '':ro''
   \<and> contains ''--bind /d:ro'' '':ro''"
  by (simp add: assembleCommand_def ReplaceAll_def exConfig_def exPod2_def exPod_def
        exContainer_def Let_def)

end
